theory Spec2Isabelle
  imports Complex_Main
begin

section \<open>Data model of the gas store (store/gasStore.ts)\<close>

text \<open>
  The store is a zustand store: every action is a function from the current state to the
  next one, so it is modelled by explicit state passing. A TypeScript \<open>number\<close> is
  modelled as a \<open>real\<close>: the arithmetic of the source is read as exact arithmetic, and
  the rounding of IEEE doubles is outside this model. So are \<open>NaN\<close> and the infinities,
  except in the cost estimate, which is also given over \<open>jsNumber\<close> below.
  Each call of \<open>Date.now()\<close> is a parameter of the function that makes it.
\<close>

record GasPoint =
  timestamp :: real
  baseFee :: real
  priorityFee :: real
  totalFee :: real
  usdPrice :: "real option"

record ChainData =
  name :: string
  symbol :: string
  rpcUrl :: string
  baseFee :: real
  priorityFee :: real
  gasPrice :: real
  blockNumber :: real
  history :: "GasPoint list"
  isConnected :: bool
  lastUpdate :: real

text \<open>\<open>Partial<ChainData>\<close>: every field may be absent.\<close>

record PartialChainData =
  name :: "string option"
  symbol :: "string option"
  rpcUrl :: "string option"
  baseFee :: "real option"
  priorityFee :: "real option"
  gasPrice :: "real option"
  blockNumber :: "real option"
  history :: "GasPoint list option"
  isConnected :: "bool option"
  lastUpdate :: "real option"

record SimulationData =
  amount :: string
  gasLimit :: real
  chain :: string

text \<open>\<open>Partial<SimulationData>\<close>.\<close>

record PartialSimulationData =
  amount :: "string option"
  gasLimit :: "real option"
  chain :: "string option"

text \<open>\<open>keyof GasState['chains']\<close>: the three keys of the \<open>chains\<close> object.\<close>

datatype chain_key = ethereum | polygon | arbitrum

datatype Mode = Live | Simulation

text \<open>
  The state of the store. The \<open>providers\<close> field (a table of socket handles) is left
  out: no modelled function reads it.
\<close>

record GasState =
  mode :: Mode
  chains :: "chain_key \<Rightarrow> ChainData"
  ethUsdPrice :: real
  simulation :: SimulationData
  isLoading :: bool
  error :: "string option"

text \<open>
  Where a claim depends on what the arithmetic does with a value that is not finite, a
  \<open>number\<close> is modelled with its three non-finite values made explicit: \<open>Fin x\<close> is a
  finite double read as the real \<open>x\<close> (its rounding stays outside the model, and the two
  zeros are one value, as they are for \<open>===\<close>), \<open>PosInf\<close> and \<open>NegInf\<close> are
  \<open>Infinity\<close> and \<open>-Infinity\<close>, and \<open>NaN\<close> is \<open>NaN\<close>.
\<close>

datatype jsNumber = Fin real | PosInf | NegInf | NaN

record TransactionCostJs =
  gasCostETH :: jsNumber
  gasCostUSD :: jsNumber
  totalCostETH :: jsNumber
  totalCostUSD :: jsNumber

record TransactionCost =
  gasCostETH :: real
  gasCostUSD :: real
  totalCostETH :: real
  totalCostUSD :: real

definition initialChainData :: ChainData where
  "initialChainData =
     \<lparr>ChainData.name = [], ChainData.symbol = [], ChainData.rpcUrl = [],
      ChainData.baseFee = 0, ChainData.priorityFee = 0, ChainData.gasPrice = 0,
      ChainData.blockNumber = 0, ChainData.history = [], ChainData.isConnected = False,
      ChainData.lastUpdate = 0\<rparr>"

text \<open>The object literal \<open>{}\<close> as a \<open>Partial<ChainData>\<close>.\<close>

definition noChainData :: PartialChainData where
  "noChainData =
     \<lparr>PartialChainData.name = None, PartialChainData.symbol = None,
      PartialChainData.rpcUrl = None, PartialChainData.baseFee = None,
      PartialChainData.priorityFee = None, PartialChainData.gasPrice = None,
      PartialChainData.blockNumber = None, PartialChainData.history = None,
      PartialChainData.isConnected = None, PartialChainData.lastUpdate = None\<rparr>"

definition noSimulationData :: PartialSimulationData where
  "noSimulationData =
     \<lparr>PartialSimulationData.amount = None, PartialSimulationData.gasLimit = None,
      PartialSimulationData.chain = None\<rparr>"

definition initialChains :: "chain_key \<Rightarrow> ChainData" where
  "initialChains c =
     (case c of
        ethereum \<Rightarrow> initialChainData
          \<lparr>ChainData.name := ''Ethereum'', ChainData.symbol := ''ETH'',
           ChainData.rpcUrl := ''wss://eth-mainnet.g.alchemy.com/v2/demo''\<rparr>
      | polygon \<Rightarrow> initialChainData
          \<lparr>ChainData.name := ''Polygon'', ChainData.symbol := ''MATIC'',
           ChainData.rpcUrl := ''wss://polygon-mainnet.g.alchemy.com/v2/demo''\<rparr>
      | arbitrum \<Rightarrow> initialChainData
          \<lparr>ChainData.name := ''Arbitrum'', ChainData.symbol := ''ETH'',
           ChainData.rpcUrl := ''wss://arb-mainnet.g.alchemy.com/v2/demo''\<rparr>)"

text \<open>The state \<open>create<GasState>\<close> starts from.\<close>

definition useGasStore :: GasState where
  "useGasStore =
     \<lparr>mode = Live, chains = initialChains, ethUsdPrice = 0,
      simulation = \<lparr>SimulationData.amount = ''0.1'', SimulationData.gasLimit = 21000,
                     SimulationData.chain = ''ethereum''\<rparr>,
      isLoading = False, error = None\<rparr>"

section \<open>Actions of the store\<close>

definition orElse :: "'a option \<Rightarrow> 'a \<Rightarrow> 'a" where
  "orElse v d = (case v of Some x \<Rightarrow> x | None \<Rightarrow> d)"

text \<open>The object spread \<open>{ ...chainData, ...data }\<close>: a field of \<open>data\<close> wins when present.\<close>

definition spreadChainData :: "ChainData \<Rightarrow> PartialChainData \<Rightarrow> ChainData" where
  "spreadChainData c d =
     \<lparr>ChainData.name = orElse (PartialChainData.name d) (ChainData.name c),
      ChainData.symbol = orElse (PartialChainData.symbol d) (ChainData.symbol c),
      ChainData.rpcUrl = orElse (PartialChainData.rpcUrl d) (ChainData.rpcUrl c),
      ChainData.baseFee = orElse (PartialChainData.baseFee d) (ChainData.baseFee c),
      ChainData.priorityFee = orElse (PartialChainData.priorityFee d) (ChainData.priorityFee c),
      ChainData.gasPrice = orElse (PartialChainData.gasPrice d) (ChainData.gasPrice c),
      ChainData.blockNumber = orElse (PartialChainData.blockNumber d) (ChainData.blockNumber c),
      ChainData.history = orElse (PartialChainData.history d) (ChainData.history c),
      ChainData.isConnected = orElse (PartialChainData.isConnected d) (ChainData.isConnected c),
      ChainData.lastUpdate = orElse (PartialChainData.lastUpdate d) (ChainData.lastUpdate c)\<rparr>"

text \<open>
  \<open>updateChainData\<close>: \<open>[chain]: { ...state.chains[chain], ...data, lastUpdate: Date.now() }\<close>.
  The first argument is the value of \<open>Date.now()\<close>.
\<close>

definition updateChainData :: "real \<Rightarrow> chain_key \<Rightarrow> PartialChainData \<Rightarrow> GasState \<Rightarrow> GasState" where
  "updateChainData now c d s =
     s\<lparr>chains := (chains s)
          (c := (spreadChainData (chains s c) d)\<lparr>ChainData.lastUpdate := now\<rparr>)\<rparr>"

text \<open>\<open>xs.slice(-n)\<close>: the last \<open>n\<close> elements, all of them when there are fewer.\<close>

definition sliceLast :: "nat \<Rightarrow> 'a list \<Rightarrow> 'a list" where
  "sliceLast n xs = drop (length xs - n) xs"

definition addGasPoint :: "chain_key \<Rightarrow> GasPoint \<Rightarrow> GasState \<Rightarrow> GasState" where
  "addGasPoint c point s =
     (let chainData = chains s c;
          newHistory = sliceLast 100 (ChainData.history chainData @ [point])
      in s\<lparr>chains := (chains s)(c := chainData\<lparr>ChainData.history := newHistory\<rparr>)\<rparr>)"

definition setMode :: "Mode \<Rightarrow> GasState \<Rightarrow> GasState" where
  "setMode m s = s\<lparr>mode := m\<rparr>"

definition setEthUsdPrice :: "real \<Rightarrow> GasState \<Rightarrow> GasState" where
  "setEthUsdPrice price s = s\<lparr>ethUsdPrice := price\<rparr>"

definition setLoading :: "bool \<Rightarrow> GasState \<Rightarrow> GasState" where
  "setLoading loading s = s\<lparr>isLoading := loading\<rparr>"

definition setError :: "string option \<Rightarrow> GasState \<Rightarrow> GasState" where
  "setError e s = s\<lparr>error := e\<rparr>"

text \<open>\<open>setSimulation\<close>: \<open>{ simulation: { ...state.simulation, ...data } }\<close>.\<close>

definition setSimulation :: "PartialSimulationData \<Rightarrow> GasState \<Rightarrow> GasState" where
  "setSimulation d s =
     s\<lparr>simulation :=
         \<lparr>SimulationData.amount =
            orElse (PartialSimulationData.amount d) (SimulationData.amount (simulation s)),
          SimulationData.gasLimit =
            orElse (PartialSimulationData.gasLimit d) (SimulationData.gasLimit (simulation s)),
          SimulationData.chain =
            orElse (PartialSimulationData.chain d) (SimulationData.chain (simulation s))\<rparr>\<rparr>"

text \<open>\<open>calculateTransactionCost\<close>; \<open>1e9\<close> converts gwei to the native unit.\<close>

definition calculateTransactionCost :: "chain_key \<Rightarrow> real \<Rightarrow> real \<Rightarrow> GasState \<Rightarrow> TransactionCost" where
  "calculateTransactionCost c gasLimit' amount' s =
     (let chainData = chains s c;
          totalGasPrice = ChainData.baseFee chainData + ChainData.priorityFee chainData;
          gasCostETH' = (totalGasPrice * gasLimit') / 10 ^ 9;
          gasCostUSD' = gasCostETH' * ethUsdPrice s;
          totalCostETH' = gasCostETH' + amount';
          totalCostUSD' = totalCostETH' * ethUsdPrice s
      in \<lparr>gasCostETH = gasCostETH', gasCostUSD = gasCostUSD',
          totalCostETH = totalCostETH', totalCostUSD = totalCostUSD'\<rparr>)"

text \<open>
  The same function with the arguments as numbers that may be infinite or \<open>NaN\<close>, which
  is what \<open>parseFloat\<close> and \<open>parseInt\<close> hand to it for a text of several hundred digits.
  The operators follow IEEE 754: a finite result whose magnitude reaches
  \<open>2^1024 - 2^970\<close> overflows to an infinity, a product of an infinity and zero is
  \<open>NaN\<close>, a sum of opposite infinities is \<open>NaN\<close>, and \<open>NaN\<close> propagates. The fields of
  the store are finite here.
\<close>

definition overflowAt :: real where
  "overflowAt = 2 ^ 1024 - 2 ^ 970"

definition jsNum :: "real \<Rightarrow> jsNumber" where
  "jsNum x =
     (if overflowAt \<le> x then PosInf else if x \<le> - overflowAt then NegInf else Fin x)"

fun jsAdd :: "jsNumber \<Rightarrow> jsNumber \<Rightarrow> jsNumber" where
  "jsAdd NaN y = NaN"
| "jsAdd x NaN = NaN"
| "jsAdd (Fin a) (Fin b) = jsNum (a + b)"
| "jsAdd PosInf NegInf = NaN"
| "jsAdd NegInf PosInf = NaN"
| "jsAdd PosInf y = PosInf"
| "jsAdd x PosInf = PosInf"
| "jsAdd NegInf y = NegInf"
| "jsAdd x NegInf = NegInf"

fun jsMul :: "jsNumber \<Rightarrow> jsNumber \<Rightarrow> jsNumber" where
  "jsMul NaN y = NaN"
| "jsMul x NaN = NaN"
| "jsMul (Fin a) (Fin b) = jsNum (a * b)"
| "jsMul (Fin a) PosInf = (if a = 0 then NaN else if 0 < a then PosInf else NegInf)"
| "jsMul (Fin a) NegInf = (if a = 0 then NaN else if 0 < a then NegInf else PosInf)"
| "jsMul PosInf (Fin b) = (if b = 0 then NaN else if 0 < b then PosInf else NegInf)"
| "jsMul NegInf (Fin b) = (if b = 0 then NaN else if 0 < b then NegInf else PosInf)"
| "jsMul PosInf PosInf = PosInf"
| "jsMul PosInf NegInf = NegInf"
| "jsMul NegInf PosInf = NegInf"
| "jsMul NegInf NegInf = PosInf"

text \<open>\<open>x / d\<close> for a finite, positive constant \<open>d\<close>, here always \<open>1e9\<close>.\<close>

fun jsDivide :: "jsNumber \<Rightarrow> real \<Rightarrow> jsNumber" where
  "jsDivide (Fin a) d = jsNum (a / d)"
| "jsDivide PosInf d = PosInf"
| "jsDivide NegInf d = NegInf"
| "jsDivide NaN d = NaN"

text \<open>\<open>Number.isFinite\<close>.\<close>

fun isFinite :: "jsNumber \<Rightarrow> bool" where
  "isFinite (Fin a) = True"
| "isFinite x = False"

definition calculateTransactionCostJs ::
  "chain_key \<Rightarrow> jsNumber \<Rightarrow> jsNumber \<Rightarrow> GasState \<Rightarrow> TransactionCostJs" where
  "calculateTransactionCostJs c gasLimit' amount' s =
     (let chainData = chains s c;
          totalGasPrice = jsAdd (Fin (ChainData.baseFee chainData))
                            (Fin (ChainData.priorityFee chainData));
          gasCostETH' = jsDivide (jsMul totalGasPrice gasLimit') (10 ^ 9);
          gasCostUSD' = jsMul gasCostETH' (Fin (ethUsdPrice s));
          totalCostETH' = jsAdd gasCostETH' amount';
          totalCostUSD' = jsMul totalCostETH' (Fin (ethUsdPrice s))
      in \<lparr>TransactionCostJs.gasCostETH = gasCostETH',
          TransactionCostJs.gasCostUSD = gasCostUSD',
          TransactionCostJs.totalCostETH = totalCostETH',
          TransactionCostJs.totalCostUSD = totalCostUSD'\<rparr>)"

text \<open>
  \<open>getChartData\<close>. The accumulator of \<open>reduce\<close> holds the three running sums.
\<close>

record FeeSums =
  baseFee :: real
  priorityFee :: real
  totalFee :: real

definition addFees :: "FeeSums \<Rightarrow> GasPoint \<Rightarrow> FeeSums" where
  "addFees acc point =
     \<lparr>FeeSums.baseFee = FeeSums.baseFee acc + GasPoint.baseFee point,
      FeeSums.priorityFee = FeeSums.priorityFee acc + GasPoint.priorityFee point,
      FeeSums.totalFee = FeeSums.totalFee acc + GasPoint.totalFee point\<rparr>"

definition intervalPointsOf :: "real \<Rightarrow> real \<Rightarrow> GasPoint list \<Rightarrow> GasPoint list" where
  "intervalPointsOf time interval filteredHistory =
     filter (\<lambda>point. timestamp point \<ge> time \<and> timestamp point < time + interval)
       filteredHistory"

text \<open>The body of the \<open>for\<close> loop: one bucket, pushed when it holds a point.\<close>

definition aggregateInterval :: "real \<Rightarrow> real \<Rightarrow> GasPoint list \<Rightarrow> GasPoint list \<Rightarrow> GasPoint list" where
  "aggregateInterval time interval filteredHistory aggregated =
     (let intervalPoints = intervalPointsOf time interval filteredHistory
      in if length intervalPoints > 0
         then
           (let avg = foldl addFees
                        \<lparr>FeeSums.baseFee = 0, FeeSums.priorityFee = 0, FeeSums.totalFee = 0\<rparr>
                        intervalPoints
            in aggregated @
                 [\<lparr>timestamp = time,
                   GasPoint.baseFee = FeeSums.baseFee avg / real (length intervalPoints),
                   GasPoint.priorityFee = FeeSums.priorityFee avg / real (length intervalPoints),
                   GasPoint.totalFee = FeeSums.totalFee avg / real (length intervalPoints),
                   usdPrice = None\<rparr>])
         else aggregated)"

text \<open>
  \<open>for (let time = intervalStart; time <= now; time += interval)\<close>. The loop does not end
  when \<open>interval\<close> is not positive, so its result is an option: \<open>None\<close> is a loop that
  never returns.
\<close>

partial_function (option) aggregateLoop ::
  "real \<Rightarrow> real \<Rightarrow> real \<Rightarrow> GasPoint list \<Rightarrow> GasPoint list \<Rightarrow> GasPoint list option" where
  "aggregateLoop time now interval filteredHistory aggregated =
     (if time \<le> now
      then aggregateLoop (time + interval) now interval filteredHistory
             (aggregateInterval time interval filteredHistory aggregated)
      else Some aggregated)"

definition defaultInterval :: real where
  "defaultInterval = 15 * 60 * 1000"

text \<open>The first argument is the value of \<open>Date.now()\<close>.\<close>

definition getChartData :: "real \<Rightarrow> chain_key \<Rightarrow> real \<Rightarrow> GasState \<Rightarrow> GasPoint list option" where
  "getChartData now c interval s =
     (let history' = ChainData.history (chains s c)
      in if length history' = 0 then Some []
         else
           (let intervalStart = now - (24 * 60 * 60 * 1000);
                filteredHistory = filter (\<lambda>point. timestamp point \<ge> intervalStart) history'
            in aggregateLoop intervalStart now interval filteredHistory []))"

section \<open>The simulation panel (components/SimulationPanel.tsx)\<close>

text \<open>
  JavaScript's \<open>parseInt\<close> with no radix, on ASCII text: leading white space is skipped,
  a sign is read, a \<open>0x\<close> prefix selects base 16, and the longest run of digits is the
  value. \<open>None\<close> is \<open>NaN\<close>: no digit was found.
\<close>

definition isWhiteSpace :: "char \<Rightarrow> bool" where
  "isWhiteSpace ch = (ch \<in> set [CHR 0x20, CHR 0x09, CHR 0x0A, CHR 0x0B, CHR 0x0C, CHR 0x0D])"

definition digitValue :: "char \<Rightarrow> nat option" where
  "digitValue ch =
     (let n = (of_char ch :: nat)
      in if 48 \<le> n \<and> n \<le> 57 then Some (n - 48)
         else if 97 \<le> n \<and> n \<le> 122 then Some (n - 87)
         else if 65 \<le> n \<and> n \<le> 90 then Some (n - 55)
         else None)"

definition isRadixDigit :: "nat \<Rightarrow> char \<Rightarrow> bool" where
  "isRadixDigit radix ch = (case digitValue ch of Some d \<Rightarrow> d < radix | None \<Rightarrow> False)"

definition digitsValue :: "nat \<Rightarrow> string \<Rightarrow> nat" where
  "digitsValue radix z = foldl (\<lambda>acc ch. acc * radix + orElse (digitValue ch) 0) 0 z"

definition parseInt :: "string \<Rightarrow> int option" where
  "parseInt str =
     (let s0 = dropWhile isWhiteSpace str;
          sign = (if take 1 s0 = ''-'' then - 1 else 1 :: int);
          s1 = (if take 1 s0 = ''-'' \<or> take 1 s0 = ''+'' then drop 1 s0 else s0);
          hex = (take 2 s1 = ''0x'' \<or> take 2 s1 = ''0X'');
          radix = (if hex then 16 else 10);
          s2 = (if hex then drop 2 s1 else s1);
          z = takeWhile (isRadixDigit radix) s2
      in if z = [] then None else Some (sign * int (digitsValue radix z)))"

text \<open>\<open>parseInt(value) || 21000\<close>: \<open>NaN\<close> and \<open>0\<close> are falsy.\<close>

definition handleGasLimitChange :: "string \<Rightarrow> GasState \<Rightarrow> GasState" where
  "handleGasLimitChange v s =
     (let numValue = (case parseInt v of
                        None \<Rightarrow> 21000
                      | Some n \<Rightarrow> if n = 0 then 21000 else real_of_int n)
      in setSimulation (noSimulationData\<lparr>PartialSimulationData.gasLimit := Some numValue\<rparr>) s)"

text \<open>
  \<open>handleAmountChange\<close>: the text is stored when it is empty or matches
  \<open>/^\d*\.?\d*$/\<close>, that is, digits, at most one dot, digits.
\<close>

definition isDigit :: "char \<Rightarrow> bool" where
  "isDigit ch = (48 \<le> (of_char ch :: nat) \<and> (of_char ch :: nat) \<le> 57)"

definition isDecimalText :: "string \<Rightarrow> bool" where
  "isDecimalText v =
     (let rest = dropWhile isDigit v;
          rest' = (if take 1 rest = ''.'' then drop 1 rest else rest)
      in dropWhile isDigit rest' = [])"

definition handleAmountChange :: "string \<Rightarrow> GasState \<Rightarrow> GasState" where
  "handleAmountChange v s =
     (if v = [] \<or> isDecimalText v
      then setSimulation (noSimulationData\<lparr>PartialSimulationData.amount := Some v\<rparr>) s
      else s)"

section \<open>The blockchain service (services/blockchainService.ts)\<close>

text \<open>
  What the network answers is an input of the model: an awaited call either rejects
  (it throws at the \<open>await\<close>) or resolves to a value. Amounts read from a node are
  \<open>bigint\<close> quantities in wei, decoded from unsigned hexadecimal, hence naturals; a
  field that is \<open>null\<close> is \<open>None\<close>.
\<close>

datatype 'a awaited = Rejected | Resolved 'a

record Block =
  baseFeePerGas :: "nat option"

record FeeData =
  gasPrice :: "nat option"

text \<open>\<open>Number(ethers.formatUnits(wei, 'gwei'))\<close>.\<close>

definition gweiNumber :: "nat \<Rightarrow> real" where
  "gweiNumber wei = real wei / 10 ^ 9"

text \<open>
  The fee components \<open>handleNewBlock\<close> derives from a block. A \<open>bigint\<close> is truthy when
  it is neither \<open>null\<close> nor \<open>0n\<close>.
\<close>

definition blockFees :: "chain_key \<Rightarrow> Block \<Rightarrow> FeeData awaited \<Rightarrow> real \<times> real" where
  "blockFees chainName block getFeeData =
     (let baseFee' = (case baseFeePerGas block of
                        Some b \<Rightarrow> if b \<noteq> 0 then gweiNumber b else 0
                      | None \<Rightarrow> 0);
          priorityFee' = 2
      in if chainName = polygon \<or> chainName = arbitrum
         then (case getFeeData of
                 Rejected \<Rightarrow> (baseFee', priorityFee')
               | Resolved feeData \<Rightarrow>
                   (case FeeData.gasPrice feeData of
                      None \<Rightarrow> (baseFee', priorityFee')
                    | Some g \<Rightarrow>
                        if g \<noteq> 0
                        then (let gasPriceGwei = gweiNumber g
                              in (gasPriceGwei * 0.8, gasPriceGwei * 0.2))
                        else (baseFee', priorityFee')))
         else (baseFee', priorityFee'))"

definition blockGasPoint :: "chain_key \<Rightarrow> Block \<Rightarrow> FeeData awaited \<Rightarrow> real \<Rightarrow> real \<Rightarrow> GasPoint" where
  "blockGasPoint chainName block getFeeData now usd =
     (let fees = blockFees chainName block getFeeData;
          baseFee' = fst fees;
          priorityFee' = snd fees;
          totalFee' = baseFee' + priorityFee'
      in \<lparr>timestamp = now, GasPoint.baseFee = baseFee', GasPoint.priorityFee = priorityFee',
          GasPoint.totalFee = totalFee', usdPrice = Some usd\<rparr>)"

text \<open>
  \<open>handleNewBlock\<close>, taken as one step of the store. \<open>now1\<close> is the \<open>Date.now()\<close> of the
  point, \<open>now2\<close> the one inside \<open>updateChainData\<close>. A rejected \<open>getBlock\<close> is caught and
  logged, a \<open>null\<close> block returns early: both leave the store as it was.
\<close>

definition handleNewBlock ::
  "chain_key \<Rightarrow> real \<Rightarrow> Block option awaited \<Rightarrow> FeeData awaited \<Rightarrow> real \<Rightarrow> real
     \<Rightarrow> GasState \<Rightarrow> GasState" where
  "handleNewBlock chainName blockNumber' getBlock getFeeData now1 now2 s =
     (case getBlock of
        Rejected \<Rightarrow> s
      | Resolved None \<Rightarrow> s
      | Resolved (Some block) \<Rightarrow>
          (let gasPoint = blockGasPoint chainName block getFeeData now1 (ethUsdPrice s)
           in addGasPoint chainName gasPoint
                (updateChainData now2 chainName
                   (noChainData
                      \<lparr>PartialChainData.baseFee := Some (GasPoint.baseFee gasPoint),
                       PartialChainData.priorityFee := Some (GasPoint.priorityFee gasPoint),
                       PartialChainData.gasPrice := Some (GasPoint.totalFee gasPoint),
                       PartialChainData.blockNumber := Some blockNumber'\<rparr>)
                   s)))"

text \<open>
  \<open>setupProvider\<close>: the connection test either resolved or was rejected, and the chain's
  \<open>isConnected\<close> flag records which.
\<close>

definition setupProvider :: "chain_key \<Rightarrow> bool \<Rightarrow> real \<Rightarrow> GasState \<Rightarrow> GasState" where
  "setupProvider chainName linked now s =
     updateChainData now chainName
       (noChainData\<lparr>PartialChainData.isConnected := Some linked\<rparr>) s"

text \<open>
  \<open>updateEthPrice\<close>. The outcome of the \<open>try\<close> block is an input: there is no Ethereum
  provider, or reading the pool threw, or a price was computed from \<open>slot0\<close>. The result
  is the promise the \<open>async\<close> method returns, holding the store it leaves behind.
\<close>

datatype PriceFetch = NoProvider | FetchFailed | Fetched real

definition updateEthPrice :: "PriceFetch \<Rightarrow> GasState \<Rightarrow> GasState awaited" where
  "updateEthPrice fetch s =
     (case fetch of
        NoProvider \<Rightarrow> Resolved s
      | Fetched price \<Rightarrow> Resolved (setEthUsdPrice price s)
      | FetchFailed \<Rightarrow>
          Resolved (if ethUsdPrice s = 0 then setEthUsdPrice 2000 s else s))"

text \<open>The demo mode of the service: \<open>baseGasPrices\<close> and the simulated tick.\<close>

record GasConfig =
  base :: real
  priority :: real
  variance :: real

definition baseGasPrices :: "chain_key \<Rightarrow> GasConfig" where
  "baseGasPrices c =
     (case c of
        ethereum \<Rightarrow> \<lparr>base = 15, priority = 2, variance = 5\<rparr>
      | polygon \<Rightarrow> \<lparr>base = 35, priority = 30, variance = 10\<rparr>
      | arbitrum \<Rightarrow> \<lparr>base = 0.1, priority = 0.05, variance = 0.05\<rparr>)"

text \<open>
  What \<open>Math.random()\<close> and \<open>Date.now()\<close> return during one iteration of the
  \<open>forEach\<close>, in the order of the calls.
\<close>

record ChainTick =
  random1 :: real
  random2 :: real
  now1 :: real
  now2 :: real
  now3 :: real

definition simulatedGasPoint :: "chain_key \<Rightarrow> ChainTick \<Rightarrow> real \<Rightarrow> GasPoint" where
  "simulatedGasPoint chainName t usd =
     (let config = baseGasPrices chainName;
          baseFee' = base config + (random1 t - 0.5) * variance config;
          priorityFee' = priority config + (random2 t - 0.5) * (variance config * 0.3);
          totalFee' = baseFee' + priorityFee'
      in \<lparr>timestamp = now1 t,
          GasPoint.baseFee = max 0.01 baseFee',
          GasPoint.priorityFee = max 0.01 priorityFee',
          GasPoint.totalFee = max 0.02 totalFee',
          usdPrice = Some usd\<rparr>)"

text \<open>One iteration; \<open>store\<close> is the snapshot taken when \<open>updateSimulatedData\<close> began.\<close>

definition simulateChain :: "GasState \<Rightarrow> (chain_key \<Rightarrow> ChainTick) \<Rightarrow> GasState \<Rightarrow> chain_key \<Rightarrow> GasState" where
  "simulateChain store ticks s chainName =
     (let t = ticks chainName;
          gasPoint = simulatedGasPoint chainName t (ethUsdPrice store)
      in addGasPoint chainName gasPoint
           (updateChainData (now3 t) chainName
              (noChainData
                 \<lparr>PartialChainData.baseFee := Some (GasPoint.baseFee gasPoint),
                  PartialChainData.priorityFee := Some (GasPoint.priorityFee gasPoint),
                  PartialChainData.gasPrice := Some (GasPoint.totalFee gasPoint),
                  PartialChainData.blockNumber := Some (real_of_int \<lfloor>now2 t / 6000\<rfloor>)\<rparr>)
              s))"

definition updateSimulatedData :: "(chain_key \<Rightarrow> ChainTick) \<Rightarrow> real \<Rightarrow> GasState \<Rightarrow> GasState" where
  "updateSimulatedData ticks randomPrice s =
     (let store = s;
          s' = foldl (simulateChain store ticks) s [ethereum, polygon, arbitrum];
          currentPrice = ethUsdPrice store;
          priceChange = (randomPrice - 0.5) * 10
      in setEthUsdPrice (max 1000 (currentPrice + priceChange)) s')"

definition setupDemoData ::
  "real \<Rightarrow> real \<Rightarrow> real \<Rightarrow> (chain_key \<Rightarrow> ChainTick) \<Rightarrow> real \<Rightarrow> GasState \<Rightarrow> GasState" where
  "setupDemoData nowE nowP nowA ticks randomPrice s =
     updateSimulatedData ticks randomPrice
       (setEthUsdPrice 2347.82
          (setupProvider arbitrum True nowA
             (setupProvider polygon True nowP
                (setupProvider ethereum True nowE s))))"

text \<open>\<open>Math.random()\<close> returns a number in \<open>[0, 1)\<close>.\<close>

definition isRandom :: "real \<Rightarrow> bool" where
  "isRandom r = (0 \<le> r \<and> r < 1)"

section \<open>Runs of the program\<close>

text \<open>
  Everything that writes to the modelled fields of the store: the service's callbacks
  and timers and the handlers of the simulation panel. A run is a list of such events applied, in order, to
  the initial store.
\<close>

datatype event =
    SetupProvider chain_key bool real
  | NewBlock chain_key real "Block option awaited" "FeeData awaited" real real
  | UpdateEthPrice PriceFetch
  | SetupDemoData real real real "chain_key \<Rightarrow> ChainTick" real
  | UpdateSimulatedData "chain_key \<Rightarrow> ChainTick" real
  | SetMode Mode
  | SetLoading bool
  | SetError "string option"
  | GasLimitChange string
  | AmountChange string
  | ChainChange string

fun serviceStep :: "GasState \<Rightarrow> event \<Rightarrow> GasState" where
  "serviceStep s (SetupProvider c linked now) = setupProvider c linked now s"
| "serviceStep s (NewBlock c n getBlock getFeeData t1 t2) =
     handleNewBlock c n getBlock getFeeData t1 t2 s"
| "serviceStep s (UpdateEthPrice fetch) =
     (case updateEthPrice fetch s of Resolved s' \<Rightarrow> s' | Rejected \<Rightarrow> s)"
| "serviceStep s (SetupDemoData nowE nowP nowA ticks r) = setupDemoData nowE nowP nowA ticks r s"
| "serviceStep s (UpdateSimulatedData ticks r) = updateSimulatedData ticks r s"
| "serviceStep s (SetMode m) = setMode m s"
| "serviceStep s (SetLoading b) = setLoading b s"
| "serviceStep s (SetError e) = setError e s"
| "serviceStep s (GasLimitChange v) = handleGasLimitChange v s"
| "serviceStep s (AmountChange v) = handleAmountChange v s"
| "serviceStep s (ChainChange v) =
     setSimulation (noSimulationData\<lparr>PartialSimulationData.chain := Some v\<rparr>) s"

text \<open>The random draws of an event are values of \<open>Math.random()\<close>.\<close>

fun eventRandom :: "event \<Rightarrow> bool" where
  "eventRandom (SetupDemoData nowE nowP nowA ticks r) =
     (isRandom r \<and> (\<forall>c \<in> set [ethereum, polygon, arbitrum].
                       isRandom (random1 (ticks c)) \<and> isRandom (random2 (ticks c))))"
| "eventRandom (UpdateSimulatedData ticks r) =
     (isRandom r \<and> (\<forall>c \<in> set [ethereum, polygon, arbitrum].
                       isRandom (random1 (ticks c)) \<and> isRandom (random2 (ticks c))))"
| "eventRandom _ = True"

definition run :: "event list \<Rightarrow> GasState" where
  "run es = foldl serviceStep useGasStore es"

text \<open>A sequence of \<open>addGasPoint\<close> calls on one chain, in arrival order.\<close>

definition addGasPoints :: "chain_key \<Rightarrow> GasPoint list \<Rightarrow> GasState \<Rightarrow> GasState" where
  "addGasPoints c points s = foldl (\<lambda>s' point. addGasPoint c point s') s points"

section \<open>Notions used to state the properties\<close>

text \<open>The invariant of a gas point: the total is the sum, and no fee is negative.\<close>

definition gasPointOk :: "GasPoint \<Rightarrow> bool" where
  "gasPointOk p =
     (GasPoint.totalFee p = GasPoint.baseFee p + GasPoint.priorityFee p
      \<and> 0 \<le> GasPoint.baseFee p \<and> 0 \<le> GasPoint.priorityFee p \<and> 0 \<le> GasPoint.totalFee p)"

text \<open>
  What holds of the store after every event of a run: each chain's \<open>gasPrice\<close> is the sum
  of its fee components, its history has at most 100 points, and every point of it
  satisfies the invariant of gas points.
\<close>

definition storeInv :: "GasState \<Rightarrow> bool" where
  "storeInv s =
     (\<forall>c. ChainData.gasPrice (chains s c)
             = ChainData.baseFee (chains s c) + ChainData.priorityFee (chains s c)
          \<and> length (ChainData.history (chains s c)) \<le> 100
          \<and> list_all gasPointOk (ChainData.history (chains s c)))"

text \<open>
  The raw points of the bucket that starts at \<open>time\<close>, and the point that stands for
  them: the arithmetic mean of each fee field, stamped with the start of the bucket.
\<close>

definition meanOf :: "(GasPoint \<Rightarrow> real) \<Rightarrow> GasPoint list \<Rightarrow> real" where
  "meanOf f pts = sum_list (map f pts) / real (length pts)"

definition bucketPoint :: "real \<Rightarrow> GasPoint list \<Rightarrow> GasPoint" where
  "bucketPoint time pts =
     \<lparr>timestamp = time, GasPoint.baseFee = meanOf GasPoint.baseFee pts,
      GasPoint.priorityFee = meanOf GasPoint.priorityFee pts,
      GasPoint.totalFee = meanOf GasPoint.totalFee pts, usdPrice = None\<rparr>"

text \<open>
  The series of \<open>n\<close> consecutive buckets from \<open>time\<close> on: one point for each bucket that
  holds a raw point, none for an empty one.
\<close>

primrec bucketSeries :: "nat \<Rightarrow> real \<Rightarrow> real \<Rightarrow> GasPoint list \<Rightarrow> GasPoint list" where
  "bucketSeries 0 time interval pts = []"
| "bucketSeries (Suc n) time interval pts =
     (if intervalPointsOf time interval pts = [] then []
      else [bucketPoint time (intervalPointsOf time interval pts)])
     @ bucketSeries n (time + interval) interval pts"

text \<open>The number of bucket starts \<open>time, time + interval, ...\<close> that are at most \<open>now\<close>.\<close>

definition bucketCount :: "real \<Rightarrow> real \<Rightarrow> real \<Rightarrow> nat" where
  "bucketCount time now interval =
     (if time \<le> now then nat \<lfloor>(now - time) / interval\<rfloor> + 1 else 0)"

text \<open>The three points of the scenario with one bucket.\<close>

definition scenarioPoints :: "GasPoint list" where
  "scenarioPoints =
     [\<lparr>timestamp = 0, GasPoint.baseFee = 13, GasPoint.priorityFee = 2,
       GasPoint.totalFee = 15, usdPrice = None\<rparr>,
      \<lparr>timestamp = 400000, GasPoint.baseFee = 18, GasPoint.priorityFee = 2,
       GasPoint.totalFee = 20, usdPrice = None\<rparr>,
      \<lparr>timestamp = 800000, GasPoint.baseFee = 23, GasPoint.priorityFee = 2,
       GasPoint.totalFee = 25, usdPrice = None\<rparr>]"

section \<open>Transaction cost\<close>

text \<open>
  Claim C1. The cost estimate of any chain is computed from the sum of the chain's current
  base fee and priority fee (which is the record's \<open>gasPrice\<close> whenever that field holds
  their sum): the native gas cost is that price times the gas limit divided by \<open>10^9\<close>,
  the fiat gas cost is the native gas cost times \<open>ethUsdPrice\<close>, the native total adds
  the amount, and the fiat total is the native total times \<open>ethUsdPrice\<close>. With base fee
  10, priority fee 2, price 2000, gas limit 21000 and amount 0.5 the four results are
  0.000252, 0.504, 0.500252 and 1000.504.
\<close>

theorem calculateTransactionCost_formula:
  "gasCostETH (calculateTransactionCost c g a s)
     = ((ChainData.baseFee (chains s c) + ChainData.priorityFee (chains s c)) * g) / 10 ^ 9
   \<and> (ChainData.gasPrice (chains s c)
         = ChainData.baseFee (chains s c) + ChainData.priorityFee (chains s c)
       \<longrightarrow> gasCostETH (calculateTransactionCost c g a s)
             = (ChainData.gasPrice (chains s c) * g) / 10 ^ 9)
   \<and> gasCostUSD (calculateTransactionCost c g a s)
       = gasCostETH (calculateTransactionCost c g a s) * ethUsdPrice s
   \<and> totalCostETH (calculateTransactionCost c g a s)
       = gasCostETH (calculateTransactionCost c g a s) + a
   \<and> totalCostUSD (calculateTransactionCost c g a s)
       = totalCostETH (calculateTransactionCost c g a s) * ethUsdPrice s
   \<and> (ChainData.baseFee (chains s c) = 10 \<and> ChainData.priorityFee (chains s c) = 2
        \<and> ethUsdPrice s = 2000 \<and> g = 21000 \<and> a = 0.5
       \<longrightarrow> gasCostETH (calculateTransactionCost c g a s) = 0.000252
         \<and> gasCostUSD (calculateTransactionCost c g a s) = 0.504
         \<and> totalCostETH (calculateTransactionCost c g a s) = 0.500252
         \<and> totalCostUSD (calculateTransactionCost c g a s) = 1000.504)"
  by (simp add: calculateTransactionCost_def Let_def)

theorem calculateTransactionCost_formula_witness:
  "gasCostETH (calculateTransactionCost ethereum 21000 0.5
      (updateChainData 0 ethereum
         (noChainData\<lparr>PartialChainData.baseFee := Some 10, PartialChainData.priorityFee := Some 2,
                       PartialChainData.gasPrice := Some 12\<rparr>)
         (setEthUsdPrice 2000 useGasStore))) = 0.000252
   \<and> totalCostUSD (calculateTransactionCost ethereum 21000 0.5
      (updateChainData 0 ethereum
         (noChainData\<lparr>PartialChainData.baseFee := Some 10, PartialChainData.priorityFee := Some 2,
                       PartialChainData.gasPrice := Some 12\<rparr>)
         (setEthUsdPrice 2000 useGasStore))) = 1000.504"
  using calculateTransactionCost_formula
    [of ethereum 21000 "0.5" "updateChainData 0 ethereum
         (noChainData\<lparr>PartialChainData.baseFee := Some 10, PartialChainData.priorityFee := Some 2,
                       PartialChainData.gasPrice := Some 12\<rparr>)
         (setEthUsdPrice 2000 useGasStore)"]
  by (simp add: updateChainData_def spreadChainData_def noChainData_def orElse_def
      setEthUsdPrice_def useGasStore_def)

lemma overflowAt_pos: "0 < overflowAt"
  by (simp add: overflowAt_def)

lemma jsNum_finite: "\<bar>x\<bar> < overflowAt \<Longrightarrow> jsNum x = Fin x"
  by (auto simp: jsNum_def)

lemma jsNum_zero: "jsNum 0 = Fin 0"
  using overflowAt_pos by (simp add: jsNum_finite)

lemma jsMul_zero: "jsMul x (Fin 0) = (if isFinite x then Fin 0 else NaN)"
  by (cases x) (simp_all add: jsNum_zero)

text \<open>
  On finite arguments, as long as nothing overflows, the two models of the estimate agree.
\<close>

lemma calculateTransactionCostJs_finite:
  assumes "\<bar>ChainData.baseFee (chains s c) + ChainData.priorityFee (chains s c)\<bar> < overflowAt"
    and "\<bar>(ChainData.baseFee (chains s c) + ChainData.priorityFee (chains s c)) * g\<bar>
           < overflowAt"
    and "\<bar>gasCostETH (calculateTransactionCost c g a s)\<bar> < overflowAt"
    and "\<bar>gasCostUSD (calculateTransactionCost c g a s)\<bar> < overflowAt"
    and "\<bar>totalCostETH (calculateTransactionCost c g a s)\<bar> < overflowAt"
    and "\<bar>totalCostUSD (calculateTransactionCost c g a s)\<bar> < overflowAt"
  shows "calculateTransactionCostJs c (Fin g) (Fin a) s =
     \<lparr>TransactionCostJs.gasCostETH = Fin (gasCostETH (calculateTransactionCost c g a s)),
      TransactionCostJs.gasCostUSD = Fin (gasCostUSD (calculateTransactionCost c g a s)),
      TransactionCostJs.totalCostETH = Fin (totalCostETH (calculateTransactionCost c g a s)),
      TransactionCostJs.totalCostUSD = Fin (totalCostUSD (calculateTransactionCost c g a s))\<rparr>"
  using assms
  by (simp add: calculateTransactionCostJs_def calculateTransactionCost_def Let_def
      jsNum_finite)

text \<open>
  Claim C10, as stated: with \<open>ethUsdPrice\<close> 0 the estimate has fiat gas cost 0 and fiat
  total 0 for every gas limit and amount. It fails for an amount that is not finite: in
  the initial store, whose price is 0, the amount \<open>Infinity\<close> gives the native total
  \<open>Infinity\<close> and the fiat total \<open>Infinity * 0\<close>, which is \<open>NaN\<close>.
\<close>

theorem calculateTransactionCost_unknown_price_counterexample:
  "ethUsdPrice useGasStore = 0
   \<and> TransactionCostJs.totalCostETH
        (calculateTransactionCostJs ethereum (Fin 21000) PosInf useGasStore) = PosInf
   \<and> TransactionCostJs.totalCostUSD
        (calculateTransactionCostJs ethereum (Fin 21000) PosInf useGasStore) = NaN"
  by (simp add: calculateTransactionCostJs_def Let_def useGasStore_def initialChains_def
      initialChainData_def jsNum_zero)

text \<open>
  Claim C10, amended: with \<open>ethUsdPrice\<close> 0, for every chain, gas limit and amount, each
  fiat output is 0 when the native output it is computed from is finite, and \<open>NaN\<close> when
  that native output is an infinity or \<open>NaN\<close>; the native outputs are computed as always,
  whatever the price. In particular, for a finite gas limit and a finite amount whose
  products and sums do not overflow, the fiat gas cost and the fiat total are 0 and the
  native outputs are the usual finite values. A result is returned in every case, never
  an error.
\<close>

theorem calculateTransactionCost_unknown_price:
  "ethUsdPrice s = 0 \<longrightarrow>
     TransactionCostJs.gasCostUSD (calculateTransactionCostJs c x y s)
       = (if isFinite (TransactionCostJs.gasCostETH (calculateTransactionCostJs c x y s))
          then Fin 0 else NaN)
   \<and> TransactionCostJs.totalCostUSD (calculateTransactionCostJs c x y s)
       = (if isFinite (TransactionCostJs.totalCostETH (calculateTransactionCostJs c x y s))
          then Fin 0 else NaN)
   \<and> TransactionCostJs.gasCostETH (calculateTransactionCostJs c x y s)
       = jsDivide
           (jsMul (jsAdd (Fin (ChainData.baseFee (chains s c)))
                     (Fin (ChainData.priorityFee (chains s c)))) x)
           (10 ^ 9)
   \<and> TransactionCostJs.totalCostETH (calculateTransactionCostJs c x y s)
       = jsAdd (TransactionCostJs.gasCostETH (calculateTransactionCostJs c x y s)) y
   \<and> (\<bar>ChainData.baseFee (chains s c) + ChainData.priorityFee (chains s c)\<bar> < overflowAt
        \<and> \<bar>(ChainData.baseFee (chains s c) + ChainData.priorityFee (chains s c)) * g\<bar>
              < overflowAt
        \<and> \<bar>((ChainData.baseFee (chains s c) + ChainData.priorityFee (chains s c)) * g)
               / 10 ^ 9 + a\<bar> < overflowAt
       \<longrightarrow> TransactionCostJs.gasCostETH (calculateTransactionCostJs c (Fin g) (Fin a) s)
             = Fin (((ChainData.baseFee (chains s c) + ChainData.priorityFee (chains s c)) * g)
                    / 10 ^ 9)
         \<and> TransactionCostJs.totalCostETH (calculateTransactionCostJs c (Fin g) (Fin a) s)
             = Fin (((ChainData.baseFee (chains s c) + ChainData.priorityFee (chains s c)) * g)
                    / 10 ^ 9 + a)
         \<and> TransactionCostJs.gasCostUSD (calculateTransactionCostJs c (Fin g) (Fin a) s)
             = Fin 0
         \<and> TransactionCostJs.totalCostUSD (calculateTransactionCostJs c (Fin g) (Fin a) s)
             = Fin 0)"
proof (intro impI)
  assume price: "ethUsdPrice s = 0"
  let ?p = "ChainData.baseFee (chains s c) + ChainData.priorityFee (chains s c)"
  have general:
    "TransactionCostJs.gasCostUSD (calculateTransactionCostJs c x y s)
       = (if isFinite (TransactionCostJs.gasCostETH (calculateTransactionCostJs c x y s))
          then Fin 0 else NaN)
     \<and> TransactionCostJs.totalCostUSD (calculateTransactionCostJs c x y s)
       = (if isFinite (TransactionCostJs.totalCostETH (calculateTransactionCostJs c x y s))
          then Fin 0 else NaN)
     \<and> TransactionCostJs.gasCostETH (calculateTransactionCostJs c x y s)
       = jsDivide
           (jsMul (jsAdd (Fin (ChainData.baseFee (chains s c)))
                     (Fin (ChainData.priorityFee (chains s c)))) x)
           (10 ^ 9)
     \<and> TransactionCostJs.totalCostETH (calculateTransactionCostJs c x y s)
       = jsAdd (TransactionCostJs.gasCostETH (calculateTransactionCostJs c x y s)) y"
    using price by (simp add: calculateTransactionCostJs_def Let_def jsMul_zero)
  have finite:
    "TransactionCostJs.gasCostETH (calculateTransactionCostJs c (Fin g) (Fin a) s)
       = Fin ((?p * g) / 10 ^ 9)
     \<and> TransactionCostJs.totalCostETH (calculateTransactionCostJs c (Fin g) (Fin a) s)
       = Fin ((?p * g) / 10 ^ 9 + a)
     \<and> TransactionCostJs.gasCostUSD (calculateTransactionCostJs c (Fin g) (Fin a) s) = Fin 0
     \<and> TransactionCostJs.totalCostUSD (calculateTransactionCostJs c (Fin g) (Fin a) s) = Fin 0"
    if b1: "\<bar>?p\<bar> < overflowAt" and b2: "\<bar>?p * g\<bar> < overflowAt"
      and b3: "\<bar>(?p * g) / 10 ^ 9 + a\<bar> < overflowAt"
  proof -
    have "\<bar>(?p * g) / 10 ^ 9\<bar> \<le> \<bar>?p * g\<bar>"
      by (simp add: abs_divide divide_le_eq)
    with b2 have b4: "\<bar>(?p * g) / 10 ^ 9\<bar> < overflowAt" by linarith
    from b1 b2 b3 b4 price show ?thesis
      by (simp add: calculateTransactionCostJs_def Let_def jsNum_finite jsNum_zero)
  qed
  from general finite show
    "TransactionCostJs.gasCostUSD (calculateTransactionCostJs c x y s)
       = (if isFinite (TransactionCostJs.gasCostETH (calculateTransactionCostJs c x y s))
          then Fin 0 else NaN)
   \<and> TransactionCostJs.totalCostUSD (calculateTransactionCostJs c x y s)
       = (if isFinite (TransactionCostJs.totalCostETH (calculateTransactionCostJs c x y s))
          then Fin 0 else NaN)
   \<and> TransactionCostJs.gasCostETH (calculateTransactionCostJs c x y s)
       = jsDivide
           (jsMul (jsAdd (Fin (ChainData.baseFee (chains s c)))
                     (Fin (ChainData.priorityFee (chains s c)))) x)
           (10 ^ 9)
   \<and> TransactionCostJs.totalCostETH (calculateTransactionCostJs c x y s)
       = jsAdd (TransactionCostJs.gasCostETH (calculateTransactionCostJs c x y s)) y
   \<and> (\<bar>?p\<bar> < overflowAt \<and> \<bar>?p * g\<bar> < overflowAt
        \<and> \<bar>(?p * g) / 10 ^ 9 + a\<bar> < overflowAt
       \<longrightarrow> TransactionCostJs.gasCostETH (calculateTransactionCostJs c (Fin g) (Fin a) s)
             = Fin ((?p * g) / 10 ^ 9)
         \<and> TransactionCostJs.totalCostETH (calculateTransactionCostJs c (Fin g) (Fin a) s)
             = Fin ((?p * g) / 10 ^ 9 + a)
         \<and> TransactionCostJs.gasCostUSD (calculateTransactionCostJs c (Fin g) (Fin a) s)
             = Fin 0
         \<and> TransactionCostJs.totalCostUSD (calculateTransactionCostJs c (Fin g) (Fin a) s)
             = Fin 0)"
    by blast
qed

theorem calculateTransactionCost_unknown_price_witness:
  "ethUsdPrice useGasStore = 0
   \<and> TransactionCostJs.gasCostUSD
        (calculateTransactionCostJs polygon (Fin 21000) (Fin 0.5) useGasStore) = Fin 0
   \<and> TransactionCostJs.totalCostUSD
        (calculateTransactionCostJs polygon (Fin 21000) (Fin 0.5) useGasStore) = Fin 0
   \<and> TransactionCostJs.totalCostETH
        (calculateTransactionCostJs polygon (Fin 21000) (Fin 0.5) useGasStore) = Fin 0.5"
proof -
  let ?p = "ChainData.baseFee (chains useGasStore polygon)
            + ChainData.priorityFee (chains useGasStore polygon)"
  have h: "ethUsdPrice useGasStore = 0" by (simp add: useGasStore_def)
  have p: "?p = 0"
    by (simp add: useGasStore_def initialChains_def initialChainData_def)
  have b: "\<bar>?p\<bar> < overflowAt \<and> \<bar>?p * 21000\<bar> < overflowAt
           \<and> \<bar>(?p * 21000) / 10 ^ 9 + 0.5\<bar> < overflowAt"
    unfolding p by (simp add: overflowAt_def)
  from h b calculateTransactionCost_unknown_price
    [of useGasStore polygon "Fin 21000" "Fin 0.5" 21000 "0.5"]
  have "TransactionCostJs.totalCostETH
          (calculateTransactionCostJs polygon (Fin 21000) (Fin 0.5) useGasStore)
          = Fin ((?p * 21000) / 10 ^ 9 + 0.5)
      \<and> TransactionCostJs.gasCostUSD
          (calculateTransactionCostJs polygon (Fin 21000) (Fin 0.5) useGasStore) = Fin 0
      \<and> TransactionCostJs.totalCostUSD
          (calculateTransactionCostJs polygon (Fin 21000) (Fin 0.5) useGasStore) = Fin 0"
    by blast
  with h show ?thesis unfolding p by simp
qed

section \<open>The price after a failed fetch\<close>

text \<open>
  Claim C7. When reading the price pool fails, \<open>updateEthPrice\<close> leaves a non-zero
  \<open>ethUsdPrice\<close> as it is and replaces the initial value 0 by the fallback 2000; the
  promise it returns resolves whatever the outcome of the fetch, so the failure does not
  reach the caller.
\<close>

theorem updateEthPrice_failure:
  "(ethUsdPrice s \<noteq> 0 \<longrightarrow> updateEthPrice FetchFailed s = Resolved s)
   \<and> (ethUsdPrice s = 0 \<longrightarrow> updateEthPrice FetchFailed s = Resolved (s\<lparr>ethUsdPrice := 2000\<rparr>))
   \<and> updateEthPrice fetch s \<noteq> Rejected"
  by (simp add: updateEthPrice_def setEthUsdPrice_def split: PriceFetch.splits)

theorem updateEthPrice_failure_witness:
  "updateEthPrice FetchFailed (setEthUsdPrice 1800 useGasStore)
     = Resolved (setEthUsdPrice 1800 useGasStore)
   \<and> ethUsdPrice useGasStore = 0
   \<and> updateEthPrice FetchFailed useGasStore = Resolved (useGasStore\<lparr>ethUsdPrice := 2000\<rparr>)"
  using updateEthPrice_failure [of "setEthUsdPrice 1800 useGasStore" FetchFailed]
    updateEthPrice_failure [of useGasStore FetchFailed]
  by (simp add: setEthUsdPrice_def useGasStore_def)

section \<open>The time of the last update\<close>

text \<open>
  Claim C8, as stated: after a mutation of a chain's record by \<open>updateChainData\<close> or by
  \<open>addGasPoint\<close>, the record's \<open>lastUpdate\<close> is the time of that mutation. It fails for
  \<open>addGasPoint\<close>: appending a point to the initial store changes the history and leaves
  \<open>lastUpdate\<close> at 0.
\<close>

theorem addGasPoint_lastUpdate_counterexample:
  "ChainData.lastUpdate (chains (addGasPoint ethereum
      \<lparr>timestamp = 1000, GasPoint.baseFee = 10, GasPoint.priorityFee = 2,
       GasPoint.totalFee = 12, usdPrice = None\<rparr> useGasStore) ethereum) = 0
   \<and> ChainData.history (chains (addGasPoint ethereum
      \<lparr>timestamp = 1000, GasPoint.baseFee = 10, GasPoint.priorityFee = 2,
       GasPoint.totalFee = 12, usdPrice = None\<rparr> useGasStore) ethereum)
     \<noteq> ChainData.history (chains useGasStore ethereum)"
  by (simp add: addGasPoint_def sliceLast_def useGasStore_def initialChains_def
      initialChainData_def Let_def)

text \<open>
  Claim C8, amended: \<open>updateChainData\<close> stamps the record it changes with the time of the
  call, and \<open>addGasPoint\<close> leaves \<open>lastUpdate\<close> as it was. The block handler calls the
  two in a row, so after it \<open>lastUpdate\<close> is the time of its \<open>updateChainData\<close> call.
\<close>

theorem lastUpdate_stamped_by_updateChainData:
  "ChainData.lastUpdate (chains (updateChainData now c d s) c) = now
   \<and> ChainData.lastUpdate (chains (addGasPoint c p s) c) = ChainData.lastUpdate (chains s c)
   \<and> ChainData.lastUpdate (chains (handleNewBlock c n (Resolved (Some b)) f t1 t2 s) c) = t2"
  by (simp add: updateChainData_def addGasPoint_def handleNewBlock_def Let_def)

section \<open>The gas limit of the simulation\<close>



section \<open>The bounded history\<close>

lemma length_sliceLast: "length (sliceLast n xs) = min n (length xs)"
  by (simp add: sliceLast_def)

lemma set_sliceLast: "set (sliceLast n xs) \<subseteq> set xs"
  by (simp add: sliceLast_def set_drop_subset)

lemma sliceLast_append_sliceLast: "sliceLast n (sliceLast n xs @ ys) = sliceLast n (xs @ ys)"
proof (cases "length xs \<le> n")
  case True
  then show ?thesis by (simp add: sliceLast_def)
next
  case False
  then have "length xs + length ys - n = (length xs - n) + length ys" by simp
  with False show ?thesis
    by (simp add: sliceLast_def add.commute)
qed

lemma history_addGasPoint:
  "ChainData.history (chains (addGasPoint c p s) c)
     = sliceLast 100 (ChainData.history (chains s c) @ [p])"
  by (simp add: addGasPoint_def Let_def)

lemma addGasPoints_Cons:
  "addGasPoints c (p # ps) s = addGasPoints c ps (addGasPoint c p s)"
  by (simp add: addGasPoints_def)

lemma history_addGasPoints:
  "ps \<noteq> [] \<Longrightarrow>
   ChainData.history (chains (addGasPoints c ps s) c)
     = sliceLast 100 (ChainData.history (chains s c) @ ps)"
proof (induction ps arbitrary: s)
  case Nil
  then show ?case by simp
next
  case (Cons p ps)
  show ?case
  proof (cases "ps = []")
    case True
    then show ?thesis by (simp add: addGasPoints_def history_addGasPoint)
  next
    case False
    then show ?thesis
      using Cons.IH [OF False, of "addGasPoint c p s"]
      by (simp add: addGasPoints_Cons history_addGasPoint sliceLast_append_sliceLast)
  qed
qed


text \<open>
  Claim C2. After any sequence of \<open>addGasPoint\<close> calls on a chain the history is the
  last 100 elements of the old history followed by the appended points, in arrival order;
  so it never has more than 100 points (given that it started with at most 100, as the
  empty initial history does), and after more than 100 appends it has exactly 100 points:
  the last 100 appended, oldest first.
\<close>

theorem addGasPoint_history_bounded:
  "(length (ChainData.history (chains s c)) \<le> 100
      \<longrightarrow> length (ChainData.history (chains (addGasPoints c points s) c)) \<le> 100)
   \<and> (points \<noteq> []
      \<longrightarrow> ChainData.history (chains (addGasPoints c points s) c)
            = sliceLast 100 (ChainData.history (chains s c) @ points)
        \<and> length (ChainData.history (chains (addGasPoints c points s) c)) \<le> 100)
   \<and> (100 < length points
      \<longrightarrow> ChainData.history (chains (addGasPoints c points s) c)
            = drop (length points - 100) points
        \<and> length (ChainData.history (chains (addGasPoints c points s) c)) = 100)
   \<and> ChainData.history (chains (addGasPoints c points useGasStore) c)
       = drop (length points - 100) points"
proof -
  let ?h = "ChainData.history (chains s c)"
  let ?h' = "ChainData.history (chains (addGasPoints c points s) c)"
  have ne: "?h' = sliceLast 100 (?h @ points)" if "points \<noteq> []"
    using that by (rule history_addGasPoints)
  have nil: "?h' = ?h" if "points = []"
    using that by (simp add: addGasPoints_def)
  have a: "length ?h' \<le> 100" if "length ?h \<le> 100"
    using that nil ne by (cases "points = []") (simp_all add: length_sliceLast)
  have b: "length ?h' \<le> 100" if "points \<noteq> []"
    using ne [OF that] by (simp add: length_sliceLast)
  have c: "?h' = drop (length points - 100) points \<and> length ?h' = 100"
    if "100 < length points"
  proof -
    from that have "points \<noteq> []" by auto
    moreover from that have "length ?h + length points - 100 - length ?h = length points - 100"
      by simp
    ultimately show ?thesis
      using that ne by (simp add: sliceLast_def)
  qed
  have d: "ChainData.history (chains (addGasPoints c points useGasStore) c)
             = drop (length points - 100) points"
  proof (cases "points = []")
    case True
    then show ?thesis
      by (simp add: addGasPoints_def useGasStore_def initialChains_def initialChainData_def
          split: chain_key.splits)
  next
    case False
    have "ChainData.history (chains useGasStore c) = []"
      by (simp add: useGasStore_def initialChains_def initialChainData_def
          split: chain_key.splits)
    with history_addGasPoints [OF False, of c useGasStore] show ?thesis
      by (simp add: sliceLast_def)
  qed
  from a b c d ne show ?thesis by blast
qed

theorem addGasPoint_history_bounded_witness:
  "length (ChainData.history (chains (addGasPoints ethereum
      (map (\<lambda>i. \<lparr>timestamp = real i, GasPoint.baseFee = 10, GasPoint.priorityFee = 2,
                  GasPoint.totalFee = 12, usdPrice = None\<rparr>) [0..<101])
      useGasStore) ethereum)) = 100
   \<and> ChainData.history (chains (addGasPoints ethereum
      (map (\<lambda>i. \<lparr>timestamp = real i, GasPoint.baseFee = 10, GasPoint.priorityFee = 2,
                  GasPoint.totalFee = 12, usdPrice = None\<rparr>) [0..<101])
      useGasStore) ethereum)
     = map (\<lambda>i. \<lparr>timestamp = real i, GasPoint.baseFee = 10, GasPoint.priorityFee = 2,
                  GasPoint.totalFee = 12, usdPrice = None\<rparr>) [1..<101]"
proof -
  let ?pts = "map (\<lambda>i. \<lparr>timestamp = real i, GasPoint.baseFee = 10, GasPoint.priorityFee = 2,
                         GasPoint.totalFee = 12, usdPrice = None\<rparr>) [0..<101]"
  let ?h = "ChainData.history (chains (addGasPoints ethereum ?pts useGasStore) ethereum)"
  have h: "100 < length ?pts" by simp
  with addGasPoint_history_bounded [of useGasStore ethereum ?pts]
  have "?h = drop (length ?pts - 100) ?pts \<and> length ?h = 100" by blast
  then show ?thesis by (simp add: drop_map)
qed

section \<open>What every run preserves\<close>

lemma list_all_sliceLast: "list_all P xs \<Longrightarrow> list_all P (sliceLast n xs)"
  using set_sliceLast [of n xs] by (auto simp: list_all_iff)

lemma storeInv_useGasStore: "storeInv useGasStore"
  by (auto simp: storeInv_def useGasStore_def initialChains_def initialChainData_def
      split: chain_key.splits)

lemma storeInv_updateChainData_keep:
  assumes "storeInv s"
    and "PartialChainData.baseFee d = None" and "PartialChainData.priorityFee d = None"
    and "PartialChainData.gasPrice d = None" and "PartialChainData.history d = None"
  shows "storeInv (updateChainData now c d s)"
  using assms by (simp add: storeInv_def updateChainData_def spreadChainData_def orElse_def)

lemma storeInv_ingest:
  assumes "storeInv s" and "gasPointOk p"
  shows "storeInv (addGasPoint c p
           (updateChainData now c
              (noChainData
                 \<lparr>PartialChainData.baseFee := Some (GasPoint.baseFee p),
                  PartialChainData.priorityFee := Some (GasPoint.priorityFee p),
                  PartialChainData.gasPrice := Some (GasPoint.totalFee p),
                  PartialChainData.blockNumber := Some n\<rparr>) s))"
  using assms
  by (simp add: storeInv_def addGasPoint_def updateChainData_def spreadChainData_def
      noChainData_def orElse_def Let_def gasPointOk_def length_sliceLast list_all_sliceLast)

lemma gweiNumber_nonneg: "0 \<le> gweiNumber n"
  by (simp add: gweiNumber_def)

lemma gasPointOk_blockGasPoint: "gasPointOk (blockGasPoint c b f now usd)"
  using gweiNumber_nonneg
  by (auto simp: gasPointOk_def blockGasPoint_def blockFees_def Let_def
      split: option.splits awaited.splits)

lemma simulated_fees_bounds:
  assumes "isRandom r1" and "isRandom r2"
  shows "0.01 \<le> base (baseGasPrices c) + (r1 - 0.5) * variance (baseGasPrices c)"
    and "0.01 \<le> priority (baseGasPrices c) + (r2 - 0.5) * (variance (baseGasPrices c) * 0.3)"
proof -
  from assms have r: "0 \<le> r1" "r1 < 1" "0 \<le> r2" "r2 < 1"
    by (simp_all add: isRandom_def)
  show "0.01 \<le> base (baseGasPrices c) + (r1 - 0.5) * variance (baseGasPrices c)"
  proof (cases c)
    case ethereum
    have "0.01 \<le> 15 + (r1 - 0.5) * 5" using r by (simp add: field_simps)
    with ethereum show ?thesis by (simp add: baseGasPrices_def)
  next
    case polygon
    have "0.01 \<le> 35 + (r1 - 0.5) * 10" using r by (simp add: field_simps)
    with polygon show ?thesis by (simp add: baseGasPrices_def)
  next
    case arbitrum
    have "0.01 \<le> 0.1 + (r1 - 0.5) * 0.05" using r by (simp add: field_simps)
    with arbitrum show ?thesis by (simp add: baseGasPrices_def)
  qed
  show "0.01 \<le> priority (baseGasPrices c) + (r2 - 0.5) * (variance (baseGasPrices c) * 0.3)"
  proof (cases c)
    case ethereum
    have "0.01 \<le> 2 + (r2 - 0.5) * (5 * 0.3)" using r by (simp add: field_simps)
    with ethereum show ?thesis by (simp add: baseGasPrices_def)
  next
    case polygon
    have "0.01 \<le> 30 + (r2 - 0.5) * (10 * 0.3)" using r by (simp add: field_simps)
    with polygon show ?thesis by (simp add: baseGasPrices_def)
  next
    case arbitrum
    have "0.01 \<le> 0.05 + (r2 - 0.5) * (0.05 * 0.3)" using r by (simp add: field_simps)
    with arbitrum show ?thesis by (simp add: baseGasPrices_def)
  qed
qed

lemma simulatedGasPoint_unclamped:
  assumes "isRandom (random1 t)" and "isRandom (random2 t)"
  shows "simulatedGasPoint c t usd =
           \<lparr>timestamp = now1 t,
            GasPoint.baseFee =
              base (baseGasPrices c) + (random1 t - 0.5) * variance (baseGasPrices c),
            GasPoint.priorityFee =
              priority (baseGasPrices c) + (random2 t - 0.5) * (variance (baseGasPrices c) * 0.3),
            GasPoint.totalFee =
              (base (baseGasPrices c) + (random1 t - 0.5) * variance (baseGasPrices c))
              + (priority (baseGasPrices c)
                 + (random2 t - 0.5) * (variance (baseGasPrices c) * 0.3)),
            usdPrice = Some usd\<rparr>"
proof -
  note b = simulated_fees_bounds [OF assms, of c]
  have "0.02 \<le> (base (baseGasPrices c) + (random1 t - 0.5) * variance (baseGasPrices c))
              + (priority (baseGasPrices c)
                 + (random2 t - 0.5) * (variance (baseGasPrices c) * 0.3))"
    using b by linarith
  with b show ?thesis
    by (simp only: simulatedGasPoint_def Let_def max_absorb2)
qed

lemma gasPointOk_sum:
  "0.01 \<le> b \<Longrightarrow> 0.01 \<le> p \<Longrightarrow>
   gasPointOk \<lparr>timestamp = t, GasPoint.baseFee = b, GasPoint.priorityFee = p,
               GasPoint.totalFee = b + p, usdPrice = u\<rparr>"
  by (simp add: gasPointOk_def)

lemma gasPointOk_simulatedGasPoint:
  assumes "isRandom (random1 t)" and "isRandom (random2 t)"
  shows "gasPointOk (simulatedGasPoint c t usd)"
  unfolding simulatedGasPoint_unclamped [OF assms]
  by (rule gasPointOk_sum) (rule simulated_fees_bounds [OF assms])+

lemma storeInv_handleNewBlock: "storeInv s \<Longrightarrow> storeInv (handleNewBlock c n g f t1 t2 s)"
  by (auto simp: handleNewBlock_def Let_def gasPointOk_blockGasPoint
      intro: storeInv_ingest split: awaited.splits option.splits)

lemma storeInv_simulateChain:
  assumes "storeInv s" and "isRandom (random1 (ticks c))" and "isRandom (random2 (ticks c))"
  shows "storeInv (simulateChain store ticks s c)"
  using assms
  by (simp add: simulateChain_def Let_def storeInv_ingest gasPointOk_simulatedGasPoint)

lemma storeInv_setEthUsdPrice: "storeInv s \<Longrightarrow> storeInv (setEthUsdPrice v s)"
  by (simp add: storeInv_def setEthUsdPrice_def)

lemma storeInv_setupProvider: "storeInv s \<Longrightarrow> storeInv (setupProvider c b now s)"
  by (simp add: setupProvider_def storeInv_updateChainData_keep noChainData_def)

lemma storeInv_updateSimulatedData:
  assumes "storeInv s"
    and "\<forall>c \<in> set [ethereum, polygon, arbitrum].
           isRandom (random1 (ticks c)) \<and> isRandom (random2 (ticks c))"
  shows "storeInv (updateSimulatedData ticks r s)"
  using assms
  by (simp add: updateSimulatedData_def Let_def storeInv_setEthUsdPrice storeInv_simulateChain)

lemma storeInv_serviceStep:
  assumes "storeInv s" and "eventRandom e"
  shows "storeInv (serviceStep s e)"
proof (cases e)
  case (SetupProvider c b now)
  with assms show ?thesis by (simp add: storeInv_setupProvider)
next
  case (NewBlock c n g f t1 t2)
  with assms show ?thesis by (simp add: storeInv_handleNewBlock)
next
  case (UpdateEthPrice fetch)
  with assms show ?thesis
    by (auto simp: updateEthPrice_def storeInv_setEthUsdPrice split: PriceFetch.splits)
next
  case (SetupDemoData nowE nowP nowA ticks r)
  with assms show ?thesis
    by (simp add: setupDemoData_def storeInv_updateSimulatedData storeInv_setEthUsdPrice
        storeInv_setupProvider)
next
  case (UpdateSimulatedData ticks r)
  with assms show ?thesis by (simp add: storeInv_updateSimulatedData)
next
  case (GasLimitChange v)
  with assms show ?thesis
    by (simp add: handleGasLimitChange_def setSimulation_def storeInv_def Let_def)
qed (use assms in \<open>simp_all add: setMode_def setLoading_def setError_def setSimulation_def
      handleAmountChange_def storeInv_def\<close>)

lemma storeInv_foldl:
  "storeInv s \<Longrightarrow> \<forall>e \<in> set es. eventRandom e \<Longrightarrow> storeInv (foldl serviceStep s es)"
  by (induction es arbitrary: s) (simp_all add: storeInv_serviceStep)

lemma storeInv_run: "\<forall>e \<in> set es. eventRandom e \<Longrightarrow> storeInv (run es)"
  by (simp add: run_def storeInv_foldl storeInv_useGasStore)


section \<open>The gas price of a chain record\<close>

text \<open>
  Claim C3, as stated: after every \<open>updateChainData\<close> call the record's \<open>gasPrice\<close> is its
  \<open>baseFee\<close> plus its \<open>priorityFee\<close>. It fails: an update of the initial store that
  passes only \<open>baseFee: 5\<close> leaves \<open>gasPrice\<close> at 0.
\<close>

theorem updateChainData_gasPrice_counterexample:
  "ChainData.gasPrice (chains (updateChainData 1 ethereum
       (noChainData\<lparr>PartialChainData.baseFee := Some 5\<rparr>) useGasStore) ethereum)
   \<noteq> ChainData.baseFee (chains (updateChainData 1 ethereum
       (noChainData\<lparr>PartialChainData.baseFee := Some 5\<rparr>) useGasStore) ethereum)
     + ChainData.priorityFee (chains (updateChainData 1 ethereum
       (noChainData\<lparr>PartialChainData.baseFee := Some 5\<rparr>) useGasStore) ethereum)"
  by (simp add: updateChainData_def spreadChainData_def noChainData_def orElse_def
      useGasStore_def initialChains_def initialChainData_def)

text \<open>
  Claim C3, amended: \<open>updateChainData\<close> does not recompute \<open>gasPrice\<close>; the field takes the
  value the caller passes and keeps its old value when none is passed. The callers keep
  it equal to the sum: in every run of the program, with the random draws in \<open>[0, 1)\<close>,
  each chain's \<open>gasPrice\<close> is its \<open>baseFee\<close> plus its \<open>priorityFee\<close> after every event.
\<close>

theorem updateChainData_gasPrice_merged:
  "ChainData.gasPrice (chains (updateChainData now c d s) c)
     = orElse (PartialChainData.gasPrice d) (ChainData.gasPrice (chains s c))
   \<and> ((\<forall>e \<in> set es. eventRandom e)
       \<longrightarrow> ChainData.gasPrice (chains (run es) k)
             = ChainData.baseFee (chains (run es) k) + ChainData.priorityFee (chains (run es) k))"
proof -
  have "ChainData.gasPrice (chains (run es) k)
          = ChainData.baseFee (chains (run es) k) + ChainData.priorityFee (chains (run es) k)"
    if "\<forall>e \<in> set es. eventRandom e"
    using storeInv_run [OF that] by (simp add: storeInv_def)
  then show ?thesis
    by (simp add: updateChainData_def spreadChainData_def)
qed

theorem updateChainData_gasPrice_merged_witness:
  "ChainData.gasPrice (chains (run
       [SetupProvider ethereum True 1,
        NewBlock ethereum 100 (Resolved (Some \<lparr>baseFeePerGas = Some 10000000000\<rparr>))
          Rejected 2 3]) ethereum)
     = ChainData.baseFee (chains (run
       [SetupProvider ethereum True 1,
        NewBlock ethereum 100 (Resolved (Some \<lparr>baseFeePerGas = Some 10000000000\<rparr>))
          Rejected 2 3]) ethereum)
       + ChainData.priorityFee (chains (run
       [SetupProvider ethereum True 1,
        NewBlock ethereum 100 (Resolved (Some \<lparr>baseFeePerGas = Some 10000000000\<rparr>))
          Rejected 2 3]) ethereum)
   \<and> ChainData.gasPrice (chains (run
       [SetupProvider ethereum True 1,
        NewBlock ethereum 100 (Resolved (Some \<lparr>baseFeePerGas = Some 10000000000\<rparr>))
          Rejected 2 3]) ethereum) = 12"
proof -
  let ?es = "[SetupProvider ethereum True 1,
        NewBlock ethereum 100 (Resolved (Some \<lparr>baseFeePerGas = Some 10000000000\<rparr>))
          Rejected 2 3]"
  have h: "\<forall>e \<in> set ?es. eventRandom e" by simp
  have "ChainData.gasPrice (chains (run ?es) ethereum) = 12"
    by (simp add: run_def setupProvider_def handleNewBlock_def blockGasPoint_def blockFees_def
        gweiNumber_def addGasPoint_def updateChainData_def spreadChainData_def noChainData_def
        orElse_def Let_def)
  with h updateChainData_gasPrice_merged [of 0 ethereum noChainData useGasStore ?es ethereum]
  show ?thesis by simp
qed

section \<open>The gas points of the two handlers\<close>

text \<open>
  Claim C6. The point the block handler builds satisfies \<open>totalFee = baseFee +
  priorityFee\<close> with the three fees non-negative, whatever the node answers; so does the
  point of the simulated tick, for random draws in \<open>[0, 1)\<close>; and in every run of the
  program every point of every chain's history does.
\<close>

theorem gasPoints_satisfy_sum:
  "gasPointOk (blockGasPoint c b f now usd)
   \<and> (isRandom (random1 t) \<and> isRandom (random2 t) \<longrightarrow> gasPointOk (simulatedGasPoint c t usd))
   \<and> ((\<forall>e \<in> set es. eventRandom e)
       \<longrightarrow> list_all gasPointOk (ChainData.history (chains (run es) k)))"
proof -
  have "list_all gasPointOk (ChainData.history (chains (run es) k))"
    if "\<forall>e \<in> set es. eventRandom e"
    using storeInv_run [OF that] by (simp add: storeInv_def)
  then show ?thesis
    by (simp add: gasPointOk_blockGasPoint gasPointOk_simulatedGasPoint)
qed

theorem gasPoints_satisfy_sum_witness:
  "gasPointOk (simulatedGasPoint arbitrum
      \<lparr>random1 = 0.5, random2 = 0.25, now1 = 6000, now2 = 6001, now3 = 6002\<rparr> 2000)
   \<and> list_all gasPointOk (ChainData.history (chains (run
        [UpdateSimulatedData
           (\<lambda>c. \<lparr>random1 = 0.5, random2 = 0.25, now1 = 6000, now2 = 6001, now3 = 6002\<rparr>)
           0.5]) arbitrum))
   \<and> length (ChainData.history (chains (run
        [UpdateSimulatedData
           (\<lambda>c. \<lparr>random1 = 0.5, random2 = 0.25, now1 = 6000, now2 = 6001, now3 = 6002\<rparr>)
           0.5]) arbitrum)) = 1"
proof -
  let ?t = "\<lparr>random1 = 0.5, random2 = 0.25, now1 = 6000, now2 = 6001, now3 = 6002\<rparr>"
  let ?es = "[UpdateSimulatedData (\<lambda>c. ?t) 0.5]"
  have h: "\<forall>e \<in> set ?es. eventRandom e" by (simp add: isRandom_def)
  have r: "isRandom (random1 ?t) \<and> isRandom (random2 ?t)" by (simp add: isRandom_def)
  have "length (ChainData.history (chains (run ?es) arbitrum)) = 1"
    by (simp add: run_def updateSimulatedData_def simulateChain_def setEthUsdPrice_def
        addGasPoint_def updateChainData_def spreadChainData_def noChainData_def orElse_def
        sliceLast_def useGasStore_def initialChains_def initialChainData_def Let_def)
  with h r gasPoints_satisfy_sum
    [where c = arbitrum and usd = 2000 and t = ?t and es = ?es and k = arbitrum]
  show ?thesis by simp
qed

section \<open>The aggregated series\<close>

lemma foldl_addFees:
  "foldl addFees acc pts =
     \<lparr>FeeSums.baseFee = FeeSums.baseFee acc + sum_list (map GasPoint.baseFee pts),
      FeeSums.priorityFee = FeeSums.priorityFee acc + sum_list (map GasPoint.priorityFee pts),
      FeeSums.totalFee = FeeSums.totalFee acc + sum_list (map GasPoint.totalFee pts)\<rparr>"
  by (induction pts arbitrary: acc) (simp_all add: addFees_def add.assoc)

lemma aggregateInterval_bucketPoint:
  "aggregateInterval time interval fh acc =
     acc @ (if intervalPointsOf time interval fh = [] then []
            else [bucketPoint time (intervalPointsOf time interval fh)])"
  by (simp add: aggregateInterval_def Let_def foldl_addFees bucketPoint_def meanOf_def)

lemma bucketCount_step:
  assumes "0 < interval" and "time \<le> now"
  shows "bucketCount time now interval = Suc (bucketCount (time + interval) now interval)"
proof (cases "time + interval \<le> now")
  case True
  have "(now - time) / interval = (now - (time + interval)) / interval + 1"
    using assms by (simp add: field_simps)
  then have "\<lfloor>(now - time) / interval\<rfloor> = \<lfloor>(now - (time + interval)) / interval\<rfloor> + 1"
    by simp
  moreover have "0 \<le> \<lfloor>(now - (time + interval)) / interval\<rfloor>"
    using True assms by simp
  ultimately show ?thesis
    using True assms by (simp add: bucketCount_def nat_add_distrib)
next
  case False
  then have "(now - time) / interval < 1" using assms by (simp add: field_simps)
  moreover have "0 \<le> (now - time) / interval" using assms by simp
  ultimately have "\<lfloor>(now - time) / interval\<rfloor> = 0" by (simp add: floor_eq_iff)
  with False assms show ?thesis by (simp add: bucketCount_def)
qed

lemma aggregateLoop_series:
  assumes "0 < interval"
  shows "aggregateLoop time now interval fh acc
           = Some (acc @ bucketSeries (bucketCount time now interval) time interval fh)"
proof (induction "bucketCount time now interval" arbitrary: time acc)
  case 0
  then have "\<not> time \<le> now" by (simp add: bucketCount_def split: if_splits)
  with 0 show ?case by (subst aggregateLoop.simps) simp
next
  case (Suc n)
  then have le: "time \<le> now" by (simp add: bucketCount_def split: if_splits)
  from bucketCount_step [OF assms le] Suc.hyps(2)
  have n: "n = bucketCount (time + interval) now interval" by simp
  have step: "bucketCount time now interval = Suc (bucketCount (time + interval) now interval)"
    by (rule bucketCount_step [OF assms le])
  show ?case
    by (subst aggregateLoop.simps)
      (simp add: le Suc.hyps(1) [OF n] step aggregateInterval_bucketPoint)
qed

lemma aggregateLoop_diverges:
  assumes "aggregateLoop time now interval fh acc = Some out"
  shows "\<not> (time \<le> now \<and> interval \<le> 0)"
proof (rule aggregateLoop.raw_induct
    [where P = "\<lambda>time now interval fh acc out. \<not> (time \<le> now \<and> interval \<le> 0)", OF _ assms])
  fix loop :: "real \<Rightarrow> real \<Rightarrow> real \<Rightarrow> GasPoint list \<Rightarrow> GasPoint list \<Rightarrow> GasPoint list option"
  fix time now interval :: real and fh acc out :: "GasPoint list"
  assume IH: "\<And>time now interval fh acc out.
                loop time now interval fh acc = Some out \<Longrightarrow> \<not> (time \<le> now \<and> interval \<le> 0)"
  assume eq: "(if time \<le> now
               then loop (time + interval) now interval fh (aggregateInterval time interval fh acc)
               else Some acc) = Some out"
  show "\<not> (time \<le> now \<and> interval \<le> 0)"
  proof
    assume a: "time \<le> now \<and> interval \<le> 0"
    with eq have "loop (time + interval) now interval fh
                    (aggregateInterval time interval fh acc) = Some out"
      by simp
    from IH [OF this] a show False by simp
  qed
qed

lemma bucketSeries_member:
  assumes "q \<in> set (bucketSeries n time interval pts)" and "0 \<le> interval"
  shows "time \<le> timestamp q
       \<and> intervalPointsOf (timestamp q) interval pts \<noteq> []
       \<and> q = bucketPoint (timestamp q) (intervalPointsOf (timestamp q) interval pts)"
  using assms
proof (induction n arbitrary: time)
  case 0
  then show ?case by simp
next
  case (Suc n)
  show ?case
  proof (cases "q \<in> set (bucketSeries n (time + interval) interval pts)")
    case True
    from Suc.IH [OF True Suc.prems(2)] Suc.prems(2) show ?thesis by simp
  next
    case False
    with Suc.prems(1) have "intervalPointsOf time interval pts \<noteq> []"
      and "q = bucketPoint time (intervalPointsOf time interval pts)"
      by (auto split: if_splits)
    then show ?thesis by (simp add: bucketPoint_def)
  qed
qed

lemma intervalPointsOf_filter:
  "start \<le> time \<Longrightarrow>
   intervalPointsOf time interval (filter (\<lambda>point. timestamp point \<ge> start) h)
     = intervalPointsOf time interval h"
  by (auto simp: intervalPointsOf_def intro: filter_cong)

lemma bucketSeries_filter:
  "start \<le> time \<Longrightarrow> 0 \<le> interval \<Longrightarrow>
   bucketSeries n time interval (filter (\<lambda>point. timestamp point \<ge> start) h)
     = bucketSeries n time interval h"
  by (induction n arbitrary: time) (simp_all add: intervalPointsOf_filter)

lemma getChartData_series:
  assumes "0 < interval"
  shows "getChartData now c interval s =
           Some (if ChainData.history (chains s c) = [] then []
                 else bucketSeries (bucketCount (now - 86400000) now interval)
                        (now - 86400000) interval (ChainData.history (chains s c)))"
  using assms
  by (simp add: getChartData_def Let_def aggregateLoop_series bucketSeries_filter)

lemma getChartData_diverges:
  assumes "getChartData now c interval s = Some out" and "interval \<le> 0"
  shows "out = []"
proof (cases "ChainData.history (chains s c) = []")
  case True
  with assms show ?thesis by (simp add: getChartData_def)
next
  case False
  with assms(1) have "aggregateLoop (now - 86400000) now interval
      (filter (\<lambda>point. timestamp point \<ge> now - 86400000) (ChainData.history (chains s c))) []
      = Some out"
    by (simp add: getChartData_def Let_def)
  from aggregateLoop_diverges [OF this] assms(2) show ?thesis by simp
qed

lemma getChartData_never_returns:
  assumes "interval \<le> 0" and "ChainData.history (chains s c) \<noteq> []"
  shows "getChartData now c interval s = None"
proof (cases "getChartData now c interval s")
  case None
  then show ?thesis .
next
  case (Some out)
  with assms(2) have "aggregateLoop (now - 86400000) now interval
      (filter (\<lambda>point. timestamp point \<ge> now - 86400000) (ChainData.history (chains s c))) []
      = Some out"
    by (simp add: getChartData_def Let_def)
  from aggregateLoop_diverges [OF this] assms(1) show ?thesis by simp
qed

lemma meanOf_cong:
  "(\<And>p. p \<in> set pts \<Longrightarrow> f p = g p) \<Longrightarrow> meanOf f pts = meanOf g pts"
  unfolding meanOf_def by (simp cong: map_cong)


lemma bucketSeries_add:
  "bucketSeries (m + n) time interval pts
     = bucketSeries m time interval pts @ bucketSeries n (time + real m * interval) interval pts"
proof (induction m arbitrary: time)
  case 0
  then show ?case by simp
next
  case (Suc m)
  have "time + interval + real m * interval = time + real (Suc m) * interval"
    by (simp add: algebra_simps)
  with Suc [of "time + interval"] show ?case by simp
qed

lemma bucketSeries_before:
  assumes "\<forall>p \<in> set pts. time + real n * interval \<le> timestamp p" and "0 \<le> interval"
  shows "bucketSeries n time interval pts = []"
  using assms
proof (induction n arbitrary: time)
  case 0
  then show ?case by simp
next
  case (Suc n)
  have eq: "time + interval + real n * interval = time + real (Suc n) * interval"
    by (simp add: algebra_simps)
  have "0 \<le> real n * interval" using Suc.prems(2) by simp
  then have "\<forall>p \<in> set pts. time + interval \<le> timestamp p"
    using Suc.prems(1) by (fastforce simp: algebra_simps)
  then have "intervalPointsOf time interval pts = []"
    by (auto simp: intervalPointsOf_def filter_empty_conv)
  moreover have "bucketSeries n (time + interval) interval pts = []"
    using Suc.prems by (intro Suc.IH) (simp_all add: eq)
  ultimately show ?case by simp
qed

lemma getChartData_one_bucket:
  assumes "ChainData.history (chains s c) = pts" and "pts \<noteq> []"
    and "\<forall>p \<in> set pts. 0 \<le> timestamp p \<and> timestamp p < 900000"
  shows "getChartData 900000 c defaultInterval s = Some [bucketPoint 0 pts]"
proof -
  have count: "bucketCount (900000 - 86400000) 900000 900000 = 95 + 2"
    by (simp add: bucketCount_def)
  have before: "bucketSeries 95 (- 85500000) 900000 pts = []"
    using assms(3) by (intro bucketSeries_before) simp_all
  have all: "intervalPointsOf 0 900000 pts = pts"
    using assms(3) by (simp add: intervalPointsOf_def)
  have none: "intervalPointsOf 900000 900000 pts = []"
    using assms(3) by (auto simp: intervalPointsOf_def filter_empty_conv)
  have two: "bucketSeries 2 0 900000 pts = [bucketPoint 0 pts]"
    using assms(2) all none by (simp add: numeral_2_eq_2)
  have "bucketSeries (95 + 2) (- 85500000) 900000 pts = [bucketPoint 0 pts]"
    unfolding bucketSeries_add using before two by simp
  with count assms(1,2) show ?thesis
    by (simp add: getChartData_series defaultInterval_def)
qed

lemma getChartData_member:
  assumes out: "getChartData now c interval s = Some out" and q: "q \<in> set out"
  shows "intervalPointsOf (timestamp q) interval (ChainData.history (chains s c)) \<noteq> []
       \<and> GasPoint.totalFee q
           = meanOf GasPoint.totalFee
               (intervalPointsOf (timestamp q) interval (ChainData.history (chains s c)))"
proof (cases "0 < interval")
  case True
  let ?h = "ChainData.history (chains s c)"
  from out q getChartData_series [OF True, of now c s]
  have "q \<in> set (bucketSeries (bucketCount (now - 86400000) now interval)
                   (now - 86400000) interval ?h)"
    by (auto split: if_splits)
  from bucketSeries_member [OF this] True
  have "intervalPointsOf (timestamp q) interval ?h \<noteq> []"
    and "q = bucketPoint (timestamp q) (intervalPointsOf (timestamp q) interval ?h)"
    by simp_all
  then show ?thesis by (metis GasPoint.select_convs(4) bucketPoint_def)
next
  case False
  with getChartData_diverges [OF out] q show ?thesis by simp
qed

text \<open>
  Claim C4. \<open>getChartData\<close> returns for every positive interval, and every point it
  returns stands for a bucket that holds at least one raw point of the chain's history:
  the points with a timestamp in \<open>[t, t + interval)\<close>, where \<open>t\<close> is the timestamp of
  the returned point. Its \<open>totalFee\<close> is the arithmetic mean of the \<open>totalFee\<close> of
  these raw points, which is the mean of their \<open>baseFee + priorityFee\<close> when the raw
  points satisfy \<open>totalFee = baseFee + priorityFee\<close>; the points of the store reached
  by any run of the program do, so there the returned \<open>totalFee\<close> is the mean of
  \<open>baseFee + priorityFee\<close> over the bucket. The equality is exact in this model, so it
  holds within any tolerance.
\<close>

theorem getChartData_bucket_means:
  "(0 < interval \<longrightarrow> (\<exists>out. getChartData now c interval s = Some out))
   \<and> (getChartData now c interval s = Some out \<and> q \<in> set out
       \<longrightarrow> intervalPointsOf (timestamp q) interval (ChainData.history (chains s c)) \<noteq> []
         \<and> GasPoint.totalFee q
             = meanOf GasPoint.totalFee
                 (intervalPointsOf (timestamp q) interval (ChainData.history (chains s c)))
         \<and> ((\<forall>p \<in> set (ChainData.history (chains s c)).
                 GasPoint.totalFee p = GasPoint.baseFee p + GasPoint.priorityFee p)
             \<longrightarrow> GasPoint.totalFee q
                   = meanOf (\<lambda>p. GasPoint.baseFee p + GasPoint.priorityFee p)
                       (intervalPointsOf (timestamp q) interval
                          (ChainData.history (chains s c)))))
   \<and> ((\<forall>e \<in> set es. eventRandom e)
         \<and> getChartData now c interval (run es) = Some out' \<and> q' \<in> set out'
       \<longrightarrow> intervalPointsOf (timestamp q') interval (ChainData.history (chains (run es) c)) \<noteq> []
         \<and> GasPoint.totalFee q'
             = meanOf (\<lambda>p. GasPoint.baseFee p + GasPoint.priorityFee p)
                 (intervalPointsOf (timestamp q') interval
                    (ChainData.history (chains (run es) c))))"
proof -
  have total: "\<exists>out. getChartData now c interval s = Some out" if "0 < interval"
    using getChartData_series [OF that] by simp
  have main: "intervalPointsOf (timestamp q) interval (ChainData.history (chains s c)) \<noteq> []
              \<and> GasPoint.totalFee q
                  = meanOf GasPoint.totalFee
                      (intervalPointsOf (timestamp q) interval (ChainData.history (chains s c)))"
    if "getChartData now c interval s = Some out" and "q \<in> set out"
    for s :: GasState and out q
    using that by (rule getChartData_member)
  have sums: "meanOf GasPoint.totalFee
                (intervalPointsOf (timestamp q) interval (ChainData.history (chains s c)))
              = meanOf (\<lambda>p. GasPoint.baseFee p + GasPoint.priorityFee p)
                  (intervalPointsOf (timestamp q) interval (ChainData.history (chains s c)))"
    if "\<forall>p \<in> set (ChainData.history (chains s c)).
          GasPoint.totalFee p = GasPoint.baseFee p + GasPoint.priorityFee p"
    for s :: GasState and q
    using that by (intro meanOf_cong) (simp add: intervalPointsOf_def)
  have inv: "\<forall>p \<in> set (ChainData.history (chains (run es) c)).
               GasPoint.totalFee p = GasPoint.baseFee p + GasPoint.priorityFee p"
    if "\<forall>e \<in> set es. eventRandom e"
    using storeInv_run [OF that] by (simp add: storeInv_def list_all_iff gasPointOk_def)
  show ?thesis
  proof (intro conjI impI)
    assume "0 < interval"
    then show "\<exists>out. getChartData now c interval s = Some out" by (rule total)
  next
    assume "getChartData now c interval s = Some out \<and> q \<in> set out"
    then show "intervalPointsOf (timestamp q) interval (ChainData.history (chains s c)) \<noteq> []"
      using main by blast
  next
    assume "getChartData now c interval s = Some out \<and> q \<in> set out"
    then show "GasPoint.totalFee q
                 = meanOf GasPoint.totalFee
                     (intervalPointsOf (timestamp q) interval (ChainData.history (chains s c)))"
      using main by blast
  next
    assume "getChartData now c interval s = Some out \<and> q \<in> set out"
      and "\<forall>p \<in> set (ChainData.history (chains s c)).
             GasPoint.totalFee p = GasPoint.baseFee p + GasPoint.priorityFee p"
    then show "GasPoint.totalFee q
                 = meanOf (\<lambda>p. GasPoint.baseFee p + GasPoint.priorityFee p)
                     (intervalPointsOf (timestamp q) interval (ChainData.history (chains s c)))"
      using main [of s out q] sums [of s q] by simp
  next
    assume a: "(\<forall>e \<in> set es. eventRandom e)
                \<and> getChartData now c interval (run es) = Some out' \<and> q' \<in> set out'"
    then show "intervalPointsOf (timestamp q') interval
                 (ChainData.history (chains (run es) c)) \<noteq> []"
      using main [of "run es" out' q'] by simp
  next
    assume a: "(\<forall>e \<in> set es. eventRandom e)
                \<and> getChartData now c interval (run es) = Some out' \<and> q' \<in> set out'"
    then show "GasPoint.totalFee q'
                 = meanOf (\<lambda>p. GasPoint.baseFee p + GasPoint.priorityFee p)
                     (intervalPointsOf (timestamp q') interval
                        (ChainData.history (chains (run es) c)))"
      using main [of "run es" out' q'] sums [of "run es" q'] inv by simp
  qed
qed

lemma history_scenario:
  "ChainData.history (chains (addGasPoints ethereum scenarioPoints useGasStore) ethereum)
     = scenarioPoints"
  by (simp add: scenarioPoints_def addGasPoints_def addGasPoint_def sliceLast_def Let_def
      useGasStore_def initialChains_def initialChainData_def)

lemma getChartData_scenarioPoints:
  "getChartData 900000 ethereum defaultInterval
     (addGasPoints ethereum scenarioPoints useGasStore)
     = Some [\<lparr>timestamp = 0, GasPoint.baseFee = 18, GasPoint.priorityFee = 2,
              GasPoint.totalFee = 20, usdPrice = None\<rparr>]"
proof -
  have "getChartData 900000 ethereum defaultInterval
          (addGasPoints ethereum scenarioPoints useGasStore)
          = Some [bucketPoint 0 scenarioPoints]"
    by (rule getChartData_one_bucket [OF history_scenario])
      (simp_all add: scenarioPoints_def)
  then show ?thesis by (simp add: bucketPoint_def meanOf_def scenarioPoints_def)
qed

theorem getChartData_bucket_means_witness:
  "getChartData 900000 ethereum defaultInterval
     (addGasPoints ethereum scenarioPoints useGasStore)
     = Some [\<lparr>timestamp = 0, GasPoint.baseFee = 18, GasPoint.priorityFee = 2,
              GasPoint.totalFee = 20, usdPrice = None\<rparr>]
   \<and> intervalPointsOf 0 defaultInterval scenarioPoints = scenarioPoints
   \<and> meanOf (\<lambda>p. GasPoint.baseFee p + GasPoint.priorityFee p)
        (intervalPointsOf 0 defaultInterval scenarioPoints) = 20
   \<and> getChartData 900000 ethereum defaultInterval
        (run [NewBlock ethereum 1 (Resolved (Some \<lparr>baseFeePerGas = Some 13000000000\<rparr>))
                Rejected 0 1])
     = Some [\<lparr>timestamp = 0, GasPoint.baseFee = 13, GasPoint.priorityFee = 2,
              GasPoint.totalFee = 15, usdPrice = None\<rparr>]
   \<and> meanOf (\<lambda>p. GasPoint.baseFee p + GasPoint.priorityFee p)
        (intervalPointsOf 0 defaultInterval
           (ChainData.history (chains
              (run [NewBlock ethereum 1 (Resolved (Some \<lparr>baseFeePerGas = Some 13000000000\<rparr>))
                      Rejected 0 1]) ethereum))) = 15"
proof -
  let ?s = "addGasPoints ethereum scenarioPoints useGasStore"
  let ?q = "\<lparr>timestamp = 0, GasPoint.baseFee = 18, GasPoint.priorityFee = 2,
             GasPoint.totalFee = 20, usdPrice = None\<rparr>"
  let ?es = "[NewBlock ethereum 1 (Resolved (Some \<lparr>baseFeePerGas = Some 13000000000\<rparr>))
                Rejected 0 1]"
  let ?p = "\<lparr>timestamp = 0, GasPoint.baseFee = 13, GasPoint.priorityFee = 2,
             GasPoint.totalFee = 15, usdPrice = Some 0\<rparr>"
  let ?q' = "\<lparr>timestamp = 0, GasPoint.baseFee = 13, GasPoint.priorityFee = 2,
              GasPoint.totalFee = 15, usdPrice = None\<rparr>"
  have ret: "getChartData 900000 ethereum defaultInterval ?s = Some [?q] \<and> ?q \<in> set [?q]"
    by (simp add: getChartData_scenarioPoints)
  have sum: "\<forall>p \<in> set (ChainData.history (chains ?s ethereum)).
               GasPoint.totalFee p = GasPoint.baseFee p + GasPoint.priorityFee p"
    by (simp add: history_scenario) (simp add: scenarioPoints_def)
  have pts: "intervalPointsOf 0 defaultInterval scenarioPoints = scenarioPoints"
    by (simp add: intervalPointsOf_def defaultInterval_def scenarioPoints_def)
  have rnd: "\<forall>e \<in> set ?es. eventRandom e" by simp
  have hist: "ChainData.history (chains (run ?es) ethereum) = [?p]"
    by (simp add: run_def handleNewBlock_def blockGasPoint_def blockFees_def gweiNumber_def
        addGasPoint_def updateChainData_def spreadChainData_def noChainData_def orElse_def
        sliceLast_def useGasStore_def initialChains_def initialChainData_def Let_def)
  have "getChartData 900000 ethereum defaultInterval (run ?es) = Some [bucketPoint 0 [?p]]"
    by (rule getChartData_one_bucket [OF hist]) simp_all
  then have ret': "getChartData 900000 ethereum defaultInterval (run ?es) = Some [?q']
                   \<and> ?q' \<in> set [?q']"
    by (simp add: bucketPoint_def meanOf_def)
  note inst = getChartData_bucket_means
    [of defaultInterval 900000 ethereum ?s "[?q]" ?q ?es "[?q']" ?q']
  from inst ret sum
  have "GasPoint.totalFee ?q
          = meanOf (\<lambda>p. GasPoint.baseFee p + GasPoint.priorityFee p)
              (intervalPointsOf (timestamp ?q) defaultInterval
                 (ChainData.history (chains ?s ethereum)))"
    by blast
  then have m: "meanOf (\<lambda>p. GasPoint.baseFee p + GasPoint.priorityFee p)
               (intervalPointsOf 0 defaultInterval scenarioPoints) = 20"
    by (simp add: history_scenario)
  from inst rnd ret'
  have "GasPoint.totalFee ?q'
          = meanOf (\<lambda>p. GasPoint.baseFee p + GasPoint.priorityFee p)
              (intervalPointsOf (timestamp ?q') defaultInterval
                 (ChainData.history (chains (run ?es) ethereum)))"
    by blast
  then have m': "meanOf (\<lambda>p. GasPoint.baseFee p + GasPoint.priorityFee p)
               (intervalPointsOf 0 defaultInterval
                  (ChainData.history (chains (run ?es) ethereum))) = 15"
    by simp
  from ret pts m ret' m' show ?thesis by simp
qed

text \<open>
  Claim C5. With three points at 0, 400000 and 800000 ms whose \<open>totalFee\<close> is 15, 20 and
  25 in the history of \<open>ethereum\<close>, at time 900000 and with the default interval of
  900000 ms, \<open>getChartData\<close> returns exactly one point, the mean of the three, whose
  \<open>totalFee\<close> is 20. In general, for a positive interval, the result is the series of
  the buckets that start at \<open>now - 24h\<close>, \<open>now - 24h + interval\<close>, ... up to \<open>now\<close>: one
  point per bucket that holds a raw point, with the means of its raw points as fees, and
  nothing for an empty bucket.
\<close>

theorem getChartData_one_point_per_bucket:
  "(ChainData.history (chains s ethereum) = [p1, p2, p3]
      \<and> timestamp p1 = 0 \<and> timestamp p2 = 400000 \<and> timestamp p3 = 800000
      \<and> GasPoint.totalFee p1 = 15 \<and> GasPoint.totalFee p2 = 20 \<and> GasPoint.totalFee p3 = 25
     \<longrightarrow> getChartData 900000 ethereum defaultInterval s = Some [bucketPoint 0 [p1, p2, p3]]
       \<and> GasPoint.totalFee (bucketPoint 0 [p1, p2, p3]) = 20)
   \<and> (0 < interval
     \<longrightarrow> getChartData now c interval s =
           Some (if ChainData.history (chains s c) = [] then []
                 else bucketSeries (bucketCount (now - 86400000) now interval)
                        (now - 86400000) interval (ChainData.history (chains s c))))"
proof -
  have "getChartData 900000 ethereum defaultInterval s = Some [bucketPoint 0 [p1, p2, p3]]
        \<and> GasPoint.totalFee (bucketPoint 0 [p1, p2, p3]) = 20"
    if "ChainData.history (chains s ethereum) = [p1, p2, p3]"
      and "timestamp p1 = 0" and "timestamp p2 = 400000" and "timestamp p3 = 800000"
      and "GasPoint.totalFee p1 = 15" and "GasPoint.totalFee p2 = 20"
      and "GasPoint.totalFee p3 = 25"
    using that getChartData_one_bucket [of s ethereum "[p1, p2, p3]"]
    by (simp add: bucketPoint_def meanOf_def)
  then show ?thesis
    using getChartData_series [of interval now c s] by blast
qed

theorem getChartData_one_point_per_bucket_witness:
  "getChartData 900000 ethereum defaultInterval
     (addGasPoints ethereum scenarioPoints useGasStore)
     = Some [bucketPoint 0 scenarioPoints]
   \<and> GasPoint.totalFee (bucketPoint 0 scenarioPoints) = 20
   \<and> GasPoint.baseFee (bucketPoint 0 scenarioPoints) = 18"
proof -
  let ?s = "addGasPoints ethereum scenarioPoints useGasStore"
  have h: "ChainData.history (chains ?s ethereum) = scenarioPoints"
    by (rule history_scenario)
  from getChartData_one_point_per_bucket
    [of ?s "scenarioPoints ! 0" "scenarioPoints ! 1" "scenarioPoints ! 2" 1 0 ethereum] h
  have "getChartData 900000 ethereum defaultInterval ?s = Some [bucketPoint 0 scenarioPoints]
        \<and> GasPoint.totalFee (bucketPoint 0 scenarioPoints) = 20"
    by (simp add: scenarioPoints_def)
  then show ?thesis by (simp add: bucketPoint_def meanOf_def scenarioPoints_def)
qed

end
